theory Spec2Isabelle
  imports Main
begin

section \<open>JavaScript values\<close>

text \<open>
  The services and the application controller handle the model's answer as untyped
  data (\<^verbatim>\<open>any\<close>): whatever \<^verbatim>\<open>JSON.parse\<close> returned. A value is
  \<^verbatim>\<open>undefined\<close>, \<^verbatim>\<open>null\<close>, a boolean, a number, a string, an array or an
  object. An object is the list of its own enumerable properties in enumeration order
  (keys are distinct in a list that stands for an object). Numbers are integers here:
  the program only tests them for truthiness and passes them on.
\<close>

datatype jsval =
    JUndefined
  | JNull
  | JBool bool
  | JNum int
  | JStr string
  | JArr "jsval list"
  | JObj "(string \<times> jsval) list"

datatype error =
    TypeError
  | Error string

text \<open>\<^verbatim>\<open>!!x\<close>: the falsy values are undefined, null, false, 0 and the empty string.\<close>

fun truthy :: "jsval \<Rightarrow> bool" where
  "truthy JUndefined = False"
| "truthy JNull = False"
| "truthy (JBool b) = b"
| "truthy (JNum n) = (n \<noteq> 0)"
| "truthy (JStr s) = (s \<noteq> [])"
| "truthy (JArr xs) = True"
| "truthy (JObj kvs) = True"

text \<open>Reading a property of undefined or null raises a TypeError.\<close>

fun nullish :: "jsval \<Rightarrow> bool" where
  "nullish JUndefined = True"
| "nullish JNull = True"
| "nullish v = False"

text \<open>\<^verbatim>\<open>a || b\<close>\<close>

definition or_else :: "jsval \<Rightarrow> jsval \<Rightarrow> jsval" where
  "or_else a b = (if truthy a then a else b)"

text \<open>
  \<^verbatim>\<open>x.k\<close> for a receiver that is not undefined or null. The property names this
  program reads (videoType, timestamps, points, item, id, data, ...) are no array index,
  not \<^verbatim>\<open>length\<close> and no member of a built-in prototype, so a primitive or an array
  has none of them and an object has one exactly when it is an own property.
\<close>

fun getProp :: "jsval \<Rightarrow> string \<Rightarrow> jsval" where
  "getProp (JObj kvs) k = (case map_of kvs k of Some v \<Rightarrow> v | None \<Rightarrow> JUndefined)"
| "getProp v k = JUndefined"

text \<open>
  \<^verbatim>\<open>o[k] = v\<close> while an object literal is built: an existing property keeps its
  place and takes the new value, a new property goes last.
\<close>

fun setProp :: "string \<Rightarrow> jsval \<Rightarrow> (string \<times> jsval) list \<Rightarrow> (string \<times> jsval) list" where
  "setProp k v [] = [(k, v)]"
| "setProp k v ((k', v') # ps) =
     (if k' = k then (k, v) # ps else (k', v') # setProp k v ps)"

text \<open>\<^verbatim>\<open>String(n)\<close> for an array index or a millisecond count.\<close>

definition digit_char :: "nat \<Rightarrow> char" where
  "digit_char d = char_of (48 + d)"

fun decimal :: "nat \<Rightarrow> string" where
  "decimal n = (if n < 10 then [digit_char n] else decimal (n div 10) @ [digit_char (n mod 10)])"

declare decimal.simps [simp del]

text \<open>
  \<^verbatim>\<open>{...x}\<close>: the own enumerable properties of \<open>x\<close>. Nothing for undefined, null,
  a boolean or a number; the indexed elements of an array; the indexed characters of a
  string.
\<close>

fun spread :: "jsval \<Rightarrow> (string \<times> jsval) list" where
  "spread (JObj kvs) = kvs"
| "spread (JArr xs) = zip (map decimal [0..<length xs]) xs"
| "spread (JStr s) = zip (map decimal [0..<length s]) (map (\<lambda>c. JStr [c]) s)"
| "spread v = []"

text \<open>\<^verbatim>\<open>xs.map(f)\<close> with a callback that can throw: the first exception ends the loop.\<close>

fun mapE :: "('a \<Rightarrow> 'e + 'b) \<Rightarrow> 'a list \<Rightarrow> 'e + 'b list" where
  "mapE f [] = Inr []"
| "mapE f (x # xs) =
     (case f x of
        Inl e \<Rightarrow> Inl e
      | Inr y \<Rightarrow> (case mapE f xs of Inl e \<Rightarrow> Inl e | Inr ys \<Rightarrow> Inr (y # ys)))"

section \<open>The domain sanitizer (services/geminiService.ts)\<close>

text \<open>
  \<^verbatim>\<open>const ensureArray = (item: any): any[] => Array.isArray(item) ? item : [];\<close>
\<close>

fun ensureArray :: "jsval \<Rightarrow> jsval list" where
  "ensureArray (JArr xs) = xs"
| "ensureArray v = []"

text \<open>
  The callback of the study notes:
  \<^verbatim>\<open>(s: any) => ({ ...s, points: ensureArray(s.points) })\<close>.
  The spread accepts undefined and null; \<^verbatim>\<open>s.points\<close> does not.
\<close>

definition sanitizeSection :: "jsval \<Rightarrow> error + jsval" where
  "sanitizeSection s =
     (if nullish s then Inl TypeError
      else Inr (JObj (setProp ''points'' (JArr (ensureArray (getProp s ''points''))) (spread s))))"

text \<open>The review object built when \<^verbatim>\<open>data.reviewDetails\<close> is truthy.\<close>

definition sanitizeReview :: "jsval \<Rightarrow> jsval" where
  "sanitizeReview rd =
     (if truthy rd then
        JObj [(''item'', or_else (getProp rd ''item'') (JStr ''Unknown'')),
              (''rating'', getProp rd ''rating''),
              (''pros'', JArr (ensureArray (getProp rd ''pros''))),
              (''cons'', JArr (ensureArray (getProp rd ''cons''))),
              (''verdict'', or_else (getProp rd ''verdict'') (JStr ''No verdict.''))]
      else JUndefined)"

text \<open>
  An object literal \<^verbatim>\<open>{ ...x, k1: v1, k2: v2 }\<close>: the properties are assigned in the
  order written to the copy of \<open>x\<close>'s properties.
\<close>

fun assignProps :: "(string \<times> jsval) list \<Rightarrow> (string \<times> jsval) list \<Rightarrow> (string \<times> jsval) list" where
  "assignProps [] obj = obj"
| "assignProps ((k, v) # ps) obj = assignProps ps (setProp k v obj)"

text \<open>
  \<^verbatim>\<open>export const sanitizeData = (data: any): AnalysisData => {
    if (!data) return {} as AnalysisData;
    return { ...data, videoType: ..., timestamps: ..., themes: ..., studyNotes: ...,
             quotes: ..., speakers: ..., subTopics: ..., reviewDetails: ... };
  };\<close>
  The property values are evaluated in the order written; only the study notes can throw.
\<close>

definition sanitizedFields :: "jsval \<Rightarrow> jsval list \<Rightarrow> (string \<times> jsval) list" where
  "sanitizedFields data sections =
     [(''videoType'', or_else (getProp data ''videoType'') (JStr ''General'')),
      (''timestamps'', JArr (ensureArray (getProp data ''timestamps''))),
      (''themes'', JArr (ensureArray (getProp data ''themes''))),
      (''studyNotes'', JArr sections),
      (''quotes'', JArr (ensureArray (getProp data ''quotes''))),
      (''speakers'', JArr (ensureArray (getProp data ''speakers''))),
      (''subTopics'', JArr (ensureArray (getProp data ''subTopics''))),
      (''reviewDetails'', sanitizeReview (getProp data ''reviewDetails''))]"

definition sanitizeData :: "jsval \<Rightarrow> error + jsval" where
  "sanitizeData data =
     (if \<not> truthy data then Inr (JObj [])
      else
        (case mapE sanitizeSection (ensureArray (getProp data ''studyNotes'')) of
           Inl e \<Rightarrow> Inl e
         | Inr sections \<Rightarrow>
             Inr (JObj (assignProps (sanitizedFields data sections) (spread data)))))"

text \<open>Two calls in a row, \<^verbatim>\<open>g(f(x))\<close>: an exception of the first call skips the second.\<close>

fun thenE :: "'e + 'a \<Rightarrow> ('a \<Rightarrow> 'e + 'b) \<Rightarrow> 'e + 'b" where
  "thenE (Inl e) g = Inl e"
| "thenE (Inr y) g = g y"

text \<open>\<^verbatim>\<open>Array.isArray\<close>\<close>

fun isArray :: "jsval \<Rightarrow> bool" where
  "isArray (JArr xs) = True"
| "isArray v = False"

text \<open>The keys that \<^verbatim>\<open>sanitizeData\<close> assigns after the spread.\<close>

definition sanitizedKeys :: "string list" where
  "sanitizedKeys = [''videoType'', ''timestamps'', ''themes'', ''studyNotes'', ''quotes'',
                    ''speakers'', ''subTopics'', ''reviewDetails'']"

section \<open>Strings\<close>

text \<open>
  Strings are lists of 8-bit characters. \<^verbatim>\<open>trim\<close> and the regular expression class
  \<^verbatim>\<open>\s\<close> remove the white space and line terminators of ECMAScript; those below
  U+0100 are TAB, LF, VT, FF, CR, SPACE and NO-BREAK SPACE.
\<close>

definition isWhiteSpace :: "char \<Rightarrow> bool" where
  "isWhiteSpace c = (of_char c \<in> {9, 10, 11, 12, 13, 32, 160 :: nat})"

definition trim :: "string \<Rightarrow> string" where
  "trim s = rev (dropWhile isWhiteSpace (rev (dropWhile isWhiteSpace s)))"

text \<open>The dot of a regular expression (no \<^verbatim>\<open>s\<close> flag) matches all but LF and CR.\<close>

definition isLineTerminator :: "char \<Rightarrow> bool" where
  "isLineTerminator c = (of_char c \<in> {10, 13 :: nat})"

text \<open>\<^verbatim>\<open>\w\<close> is \<^verbatim>\<open>[A-Za-z0-9_]\<close>.\<close>

definition isWordChar :: "char \<Rightarrow> bool" where
  "isWordChar c =
     (let n = of_char c :: nat
      in (65 \<le> n \<and> n \<le> 90) \<or> (97 \<le> n \<and> n \<le> 122) \<or> (48 \<le> n \<and> n \<le> 57) \<or> n = 95)"

definition toLowerCase :: "string \<Rightarrow> string" where
  "toLowerCase s =
     map (\<lambda>c. let n = of_char c :: nat in if 65 \<le> n \<and> n \<le> 90 then char_of (n + 32) else c) s"

text \<open>\<^verbatim>\<open>s.startsWith(p)\<close> and \<^verbatim>\<open>s.includes(p)\<close> (\<open>includes\<close> is a keyword of Isabelle)\<close>

definition startsWith :: "string \<Rightarrow> string \<Rightarrow> bool" where
  "startsWith p s = (take (length p) s = p)"

fun strIncludes :: "string \<Rightarrow> string \<Rightarrow> bool" where
  "strIncludes [] p = (p = [])"
| "strIncludes (c # cs) p = (startsWith p (c # cs) \<or> strIncludes cs p)"

text \<open>\<^verbatim>\<open>xs.join(sep)\<close> on strings.\<close>

fun joinWith :: "string \<Rightarrow> string list \<Rightarrow> string" where
  "joinWith sep [] = []"
| "joinWith sep [x] = x"
| "joinWith sep (x # y # ys) = x @ sep @ joinWith sep (y # ys)"

text \<open>
  The string a template literal puts in for \<^verbatim>\<open>${x}\<close> (the operation ToString of
  the language). A number is written by the engine (\<^verbatim>\<open>Number::toString\<close>: the
  shortest digits that read back as the same number, which for a large number are not
  its decimal expansion); that function is the parameter \<open>num\<close>. An array joins the
  strings of its elements with commas, writing nothing for undefined and null. An object
  with an own property \<^verbatim>\<open>toString\<close> cannot be converted, because the property of a
  parsed object is no function and \<^verbatim>\<open>valueOf\<close> does not return a primitive: a
  TypeError. Every other object is written "[object Object]".
\<close>

fun toStr :: "(int \<Rightarrow> string) \<Rightarrow> jsval \<Rightarrow> error + string"
  and toStrs :: "(int \<Rightarrow> string) \<Rightarrow> jsval list \<Rightarrow> error + string list" where
  "toStr num JUndefined = Inr ''undefined''"
| "toStr num JNull = Inr ''null''"
| "toStr num (JBool b) = Inr (if b then ''true'' else ''false'')"
| "toStr num (JNum n) = Inr (num n)"
| "toStr num (JStr s) = Inr s"
| "toStr num (JArr xs) =
     (case toStrs num xs of Inl err \<Rightarrow> Inl err | Inr ss \<Rightarrow> Inr (joinWith '','' ss))"
| "toStr num (JObj kvs) =
     (if map_of kvs ''toString'' \<noteq> None then Inl TypeError else Inr ''[object Object]'')"
| "toStrs num [] = Inr []"
| "toStrs num (x # xs) =
     (case (if nullish x then Inr [] else toStr num x) of
        Inl err \<Rightarrow> Inl err
      | Inr s \<Rightarrow> (case toStrs num xs of Inl err \<Rightarrow> Inl err | Inr ss \<Rightarrow> Inr (s # ss)))"

text \<open>
  \<^verbatim>\<open>a === b\<close>. Primitives are compared by value. Two arrays or objects are equal only
  when they are one and the same reference; the values compared by this program come
  from records that were parsed separately, so they never are.
\<close>

fun strictEq :: "jsval \<Rightarrow> jsval \<Rightarrow> bool" where
  "strictEq JUndefined JUndefined = True"
| "strictEq JNull JNull = True"
| "strictEq (JBool a) (JBool b) = (a = b)"
| "strictEq (JNum a) (JNum b) = (a = b)"
| "strictEq (JStr a) (JStr b) = (a = b)"
| "strictEq a b = False"

section \<open>The tolerant parser (services/geminiService.ts)\<close>

text \<open>
  \<^verbatim>\<open>s.replace(/pat/g, "")\<close> for a literal pattern: the occurrences are removed from
  left to right.
\<close>

function removeAll :: "string \<Rightarrow> string \<Rightarrow> string" where
  "removeAll pat s =
     (if pat = [] \<or> s = [] then s
      else if startsWith pat s then removeAll pat (drop (length pat) s)
      else hd s # removeAll pat (tl s))"
  by pat_completeness auto
termination
  by (relation "measure (\<lambda>(pat, s). length s)") auto

declare removeAll.simps [simp del]

text \<open>
  The text before the first occurrence of a pattern, and the text behind it; \<open>None\<close>
  when the pattern does not occur.
\<close>

fun beforeFirst :: "string \<Rightarrow> string \<Rightarrow> string option" where
  "beforeFirst pat [] = (if pat = [] then Some [] else None)"
| "beforeFirst pat (c # cs) =
     (if startsWith pat (c # cs) then Some []
      else map_option ((#) c) (beforeFirst pat cs))"

fun afterFirst :: "string \<Rightarrow> string \<Rightarrow> string option" where
  "afterFirst pat [] = (if pat = [] then Some [] else None)"
| "afterFirst pat (c # cs) =
     (if startsWith pat (c # cs) then Some (drop (length pat) (c # cs))
      else afterFirst pat cs)"

text \<open>
  \<^verbatim>\<open>clean.match(/```(?:json)?([\s\S]*?)```/)\<close>: the first group of the match, if
  there is a match. The match begins at the first fence. The optional tag is greedy:
  it is taken when a closing fence follows it, and the lazy group ends at the first
  fence behind.
\<close>

definition fencedGroup :: "string \<Rightarrow> string option" where
  "fencedGroup s =
     (case afterFirst ''```'' s of
        None \<Rightarrow> None
      | Some behind \<Rightarrow>
          if startsWith ''json'' behind \<and> beforeFirst ''```'' (drop 4 behind) \<noteq> None
          then beforeFirst ''```'' (drop 4 behind)
          else beforeFirst ''```'' behind)"

text \<open>
  The fallback
  \<^verbatim>\<open>clean.replace(/^```json\s*/, "").replace(/^```\s*/, "").replace(/\s*```$/, "")\<close>
\<close>

definition stripPrefix :: "string \<Rightarrow> string \<Rightarrow> string" where
  "stripPrefix p s = (if startsWith p s then dropWhile isWhiteSpace (drop (length p) s) else s)"

definition stripFenceAtEnd :: "string \<Rightarrow> string" where
  "stripFenceAtEnd s =
     (if startsWith ''```'' (rev s) then rev (dropWhile isWhiteSpace (drop 3 (rev s))) else s)"

text \<open>
  \<^verbatim>\<open>const cleanJsonString = (text: string): string => {
    let clean = text.trim();
    clean = clean.replace(/ABLES_START/g, "");
    clean = clean.replace(/\{:\.language-json\}/g, "");
    if (clean.includes("```")) {
        const matches = clean.match(/```(?:json)?([\s\S]*?)```/);
        if (matches && matches[1]) clean = matches[1].trim();
        else clean = clean.replace(/^```json\s*/, "").replace(/^```\s*/, "").replace(/\s*```$/, "");
    }
    return clean.trim();
  };\<close>
  \<open>deleteMarkers\<close> is the value of \<^verbatim>\<open>clean\<close> after the first three statements.
\<close>

definition deleteMarkers :: "string \<Rightarrow> string" where
  "deleteMarkers text = removeAll ''{:.language-json}'' (removeAll ''ABLES_START'' (trim text))"

definition cleanJsonString :: "string \<Rightarrow> string" where
  "cleanJsonString text =
     (let clean = deleteMarkers text
      in trim
           (if strIncludes clean ''```'' then
              (case fencedGroup clean of
                 Some g \<Rightarrow>
                   if g \<noteq> [] then trim g
                   else stripFenceAtEnd (stripPrefix ''```'' (stripPrefix ''```json'' clean))
               | None \<Rightarrow> stripFenceAtEnd (stripPrefix ''```'' (stripPrefix ''```json'' clean)))
            else clean))"

text \<open>
  \<^verbatim>\<open>jsonStr.replace(/,\s*([\]}])/g, '$1')\<close>: a comma, the white space behind it and a
  closing bracket or brace are replaced by the bracket or brace; the search goes on
  behind it.
\<close>

function repairJson :: "string \<Rightarrow> string" where
  "repairJson [] = []"
| "repairJson (c # cs) =
     (if c = CHR '','' then
        (case dropWhile isWhiteSpace cs of
           [] \<Rightarrow> c # repairJson cs
         | b # rest \<Rightarrow> if b = CHR '']'' \<or> b = CHR ''}'' then b # repairJson rest
                       else c # repairJson cs)
      else c # repairJson cs)"
  by pat_completeness auto
termination
proof (relation "measure length")
  fix c :: char and cs b rest
  assume "dropWhile isWhiteSpace cs = b # rest"
  then have "length (b # rest) \<le> length cs"
    by (metis length_dropWhile_le)
  then show "(rest, c # cs) \<in> measure length" by simp
qed auto

text \<open>
  \<^verbatim>\<open>const parseGenerativeJson = (text: string): any => {
    const cleaned = cleanJsonString(text);
    try { return JSON.parse(cleaned); }
    catch (e1) {
      try { return JSON.parse(repairJson(cleaned)); }
      catch (e2) { throw new Error(`Failed to parse AI response.`); }
    }
  };\<close>
  \<open>parse\<close> is \<^verbatim>\<open>JSON.parse\<close>, \<open>None\<close> where it throws.
\<close>

definition parseGenerativeJson :: "(string \<Rightarrow> jsval option) \<Rightarrow> string \<Rightarrow> error + jsval" where
  "parseGenerativeJson parse text =
     (let cleaned = cleanJsonString text
      in case parse cleaned of
           Some v \<Rightarrow> Inr v
         | None \<Rightarrow>
             (case parse (repairJson cleaned) of
                Some v \<Rightarrow> Inr v
              | None \<Rightarrow> Inl (Error ''Failed to parse AI response.'')))"

text \<open>
  The span that the specification speaks of: from the first \<^verbatim>\<open>{\<close> to the last
  \<^verbatim>\<open>}\<close> of a text, both included; \<open>None\<close> when one of them is missing or the
  last closing brace stands before the first opening one.
\<close>

definition specBraceSpan :: "string \<Rightarrow> string option" where
  "specBraceSpan s =
     (let fromOpen = dropWhile (\<lambda>c. c \<noteq> CHR ''{'') s;
          span = rev (dropWhile (\<lambda>c. c \<noteq> CHR ''}'') (rev fromOpen))
      in if span = [] then None else Some span)"

section \<open>The identifier of a video (App.tsx)\<close>

text \<open>
  \<^verbatim>\<open>const regExp = /^.*(youtu.be\/|v\/|u\/\w\/|embed\/|watch\?v=|&v=)([^#&?]*).*/;\<close>

  \<open>markerAt s\<close> is the length of the first group when it matches at the head of \<open>s\<close>.
  The alternatives begin with different characters, so at most one of them matches.
  The dot of \<^verbatim>\<open>youtu.be\<close> is not escaped: it stands for any character of the line.
\<close>

definition matchesYoutuBe :: "string \<Rightarrow> bool" where
  "matchesYoutuBe s =
     (startsWith ''youtu'' s \<and> 9 \<le> length s \<and> \<not> isLineTerminator (s ! 5) \<and>
      startsWith ''be/'' (drop 6 s))"

definition matchesUser :: "string \<Rightarrow> bool" where
  "matchesUser s =
     (startsWith ''u/'' s \<and> 4 \<le> length s \<and> isWordChar (s ! 2) \<and> s ! 3 = CHR ''/'')"

definition markerAt :: "string \<Rightarrow> nat option" where
  "markerAt s =
     (if matchesYoutuBe s then Some 9
      else if startsWith ''v/'' s then Some 2
      else if matchesUser s then Some 4
      else if startsWith ''embed/'' s then Some 6
      else if startsWith ''watch?v='' s then Some 8
      else if startsWith ''&v='' s then Some 3
      else None)"

text \<open>
  \<^verbatim>\<open>^.*\<close> is greedy and stays on the first line: the engine tries the longest prefix
  first and gives characters back one at a time, so the first group matches at the
  rightmost position of the first line where a marker begins. The result is the rest of
  the string after that marker. What follows the first group cannot fail.
\<close>

fun afterLastMarker :: "string \<Rightarrow> string option" where
  "afterLastMarker [] = None"
| "afterLastMarker (c # cs) =
     (case (if isLineTerminator c then None else afterLastMarker cs) of
        Some r \<Rightarrow> Some r
      | None \<Rightarrow> (case markerAt (c # cs) of Some n \<Rightarrow> Some (drop n (c # cs)) | None \<Rightarrow> None))"

text \<open>
  \<^verbatim>\<open>const getYouTubeId = (url: string) => {
    if (!url) return null;
    const match = url.match(regExp);
    return (match && match[2].length === 11) ? match[2] : null;
  };\<close>
  The second group is the longest run of characters other than \<^verbatim>\<open>#\<close>, \<^verbatim>\<open>&\<close> and
  \<^verbatim>\<open>?\<close>.
\<close>

definition getYouTubeId :: "string \<Rightarrow> string option" where
  "getYouTubeId url =
     (if url = [] then None
      else
        (case afterLastMarker url of
           None \<Rightarrow> None
         | Some rest \<Rightarrow>
             (let token = takeWhile (\<lambda>c. c \<notin> set ''#&?'') rest
              in if length token = 11 then Some token else None)))"

text \<open>
  \<^verbatim>\<open>validateYouTubeUrl\<close> returns the message of the first failed check, or null.
  \<^verbatim>\<open>new URL(u).hostname\<close> is the browser's: \<open>hostnameOf\<close> is \<open>None\<close> where the
  constructor throws.
\<close>

definition validateYouTubeUrl :: "(string \<Rightarrow> string option) \<Rightarrow> string \<Rightarrow> string option" where
  "validateYouTubeUrl hostnameOf urlToValidate =
     (if trim urlToValidate = [] then Some ''Please enter a YouTube URL.''
      else
        (case hostnameOf urlToValidate of
           None \<Rightarrow> Some ''Invalid URL format.''
         | Some h \<Rightarrow>
             (let hostname = toLowerCase h
              in if \<not> strIncludes hostname ''youtube.com'' \<and> \<not> strIncludes hostname ''youtu.be''
                 then Some ''Please provide a valid YouTube URL (youtube.com or youtu.be).''
                 else if getYouTubeId urlToValidate = None
                 then Some ''Could not find a valid Video ID. Please check the link format.''
                 else None)))"

section \<open>The application controller (App.tsx)\<close>

text \<open>\<^verbatim>\<open>err.message\<close>. The text of a TypeError is the engine's own.\<close>

fun message :: "error \<Rightarrow> string" where
  "message (Error m) = m"
| "message TypeError = ''TypeError''"

datatype inputMode = ModeUrl | ModeTranscript | ModeAudio

text \<open>The calls of the analysis service that wait for the network.\<close>

datatype request =
    AnalyzeTranscript string string string
  | AnalyzeUrlWithGrounding string string

text \<open>
  The state of the component (\<^verbatim>\<open>useState\<close>), the entry \<^verbatim>\<open>yt_agent_history\<close> of
  \<^verbatim>\<open>localStorage\<close> (\<open>None\<close> when there is none; its quota is not modelled) and the
  log of the service calls made. A history item is an object: it is built by an object
  literal, here and when the history is loaded, so it is kept as its property list.

  \<^verbatim>\<open>handleAnalyze\<close> is wrapped in \<^verbatim>\<open>useCallback\<close> with the dependencies
  \<^verbatim>\<open>[url, transcript, videoId, inputMode, videoTypeFilter]\<close>: it is created anew only
  in a render in which one of them has changed, and it calls the \<^verbatim>\<open>saveToHistory\<close>
  of that render, whose variable \<^verbatim>\<open>history\<close> is the history of that render.
  \<open>capturedHistory\<close> is that value: what \<^verbatim>\<open>history\<close> stands for inside the
  \<^verbatim>\<open>handleAnalyze\<close> that a click runs.
\<close>

record app =
  inputMode :: inputMode
  url :: string
  transcript :: string
  videoTypeFilter :: string
  isLoading :: bool
  error :: "string option"
  data :: "jsval option"
  loadingStep :: string
  history :: "(string \<times> jsval) list list"
  capturedHistory :: "(string \<times> jsval) list list"
  storage :: "string option"
  requests :: "request list"

text \<open>
  What the component does not decide: the host name \<^verbatim>\<open>new URL\<close> finds, what an
  awaited service call returns or throws, \<^verbatim>\<open>JSON.stringify\<close>, how the engine
  writes a number, and the two readings of \<^verbatim>\<open>Date.now()\<close> that
  \<^verbatim>\<open>saveToHistory\<close> takes (whole milliseconds, far below \<open>2\<^sup>5\<^sup>3\<close>, which
  \<^verbatim>\<open>toString\<close> writes in decimal).
\<close>

record env =
  hostnameOf :: "string \<Rightarrow> string option"
  respond :: "request \<Rightarrow> error + jsval"
  stringify :: "jsval \<Rightarrow> string"
  numberToString :: "int \<Rightarrow> string"
  nowId :: nat
  nowDate :: nat

text \<open>The first render: the memoized \<^verbatim>\<open>handleAnalyze\<close> sees the empty history.\<close>

definition initialApp :: "string option \<Rightarrow> app" where
  "initialApp saved =
     \<lparr> inputMode = ModeUrl, url = [], transcript = [], videoTypeFilter = ''Auto'',
       isLoading = False, error = None, data = None, loadingStep = [], history = [],
       capturedHistory = [], storage = saved, requests = [] \<rparr>"

subsection \<open>Inputs\<close>

text \<open>
  The setters that the input elements call. A new value of \<^verbatim>\<open>url\<close> (and with it
  of \<^verbatim>\<open>videoId\<close>), \<^verbatim>\<open>transcript\<close>, \<^verbatim>\<open>inputMode\<close> or
  \<^verbatim>\<open>videoTypeFilter\<close> makes the next render create \<^verbatim>\<open>handleAnalyze\<close> anew,
  with the history of that render. Setting the value that is already there changes
  nothing.
\<close>

definition recreated :: "app \<Rightarrow> app" where
  "recreated st = st\<lparr> capturedHistory := history st \<rparr>"

definition setUrl :: "string \<Rightarrow> app \<Rightarrow> app" where
  "setUrl u st = (if u = url st then st else recreated (st\<lparr> url := u \<rparr>))"

definition setTranscript :: "string \<Rightarrow> app \<Rightarrow> app" where
  "setTranscript t st = (if t = transcript st then st else recreated (st\<lparr> transcript := t \<rparr>))"

definition setInputMode :: "inputMode \<Rightarrow> app \<Rightarrow> app" where
  "setInputMode m st = (if m = inputMode st then st else recreated (st\<lparr> inputMode := m \<rparr>))"

definition setVideoTypeFilter :: "string \<Rightarrow> app \<Rightarrow> app" where
  "setVideoTypeFilter f st =
     (if f = videoTypeFilter st then st else recreated (st\<lparr> videoTypeFilter := f \<rparr>))"

subsection \<open>History\<close>

text \<open>\<^verbatim>\<open>h.id\<close> of a history item.\<close>

definition itemId :: "(string \<times> jsval) list \<Rightarrow> jsval" where
  "itemId h = getProp (JObj h) ''id''"

text \<open>
  \<^verbatim>\<open>const newItem: HistoryItem = {
    id: sanitizedData.videoId || Date.now().toString(),
    title: sanitizedData.title,
    date: Date.now(),
    type: sanitizedData.videoType,
    thumbnail: sanitizedData.videoId
      ? `https://img.youtube.com/vi/${sanitizedData.videoId}/mqdefault.jpg` : undefined,
    data: sanitizedData
  };\<close>
  Only the template literal of the thumbnail can throw.
\<close>

definition thumbnail :: "(int \<Rightarrow> string) \<Rightarrow> jsval \<Rightarrow> error + jsval" where
  "thumbnail num videoId =
     (if truthy videoId then
        (case toStr num videoId of
           Inl err \<Rightarrow> Inl err
         | Inr s \<Rightarrow> Inr (JStr (''https://img.youtube.com/vi/'' @ s @ ''/mqdefault.jpg'')))
      else Inr JUndefined)"

definition newItem ::
  "(int \<Rightarrow> string) \<Rightarrow> nat \<Rightarrow> nat \<Rightarrow> jsval \<Rightarrow> error + (string \<times> jsval) list" where
  "newItem num t1 t2 sanitizedData =
     (case thumbnail num (getProp sanitizedData ''videoId'') of
        Inl err \<Rightarrow> Inl err
      | Inr th \<Rightarrow>
          Inr [(''id'', or_else (getProp sanitizedData ''videoId'') (JStr (decimal t1))),
               (''title'', getProp sanitizedData ''title''),
               (''date'', JNum (int t2)),
               (''type'', getProp sanitizedData ''videoType''),
               (''thumbnail'', th),
               (''data'', sanitizedData)])"

text \<open>
  \<^verbatim>\<open>[newItem, ...history.filter(h => h.id !== newItem.id)].slice(0, 10)\<close>
\<close>

definition updatedHistory ::
  "(string \<times> jsval) list \<Rightarrow> (string \<times> jsval) list list \<Rightarrow> (string \<times> jsval) list list" where
  "updatedHistory item hist =
     take 10 (item # filter (\<lambda>h. \<not> strictEq (itemId h) (itemId item)) hist)"

text \<open>
  \<^verbatim>\<open>saveToHistory\<close>, as \<^verbatim>\<open>handleAnalyze\<close> calls it: sanitize, build the item,
  replace the history and store it. The variable \<^verbatim>\<open>history\<close> that it filters is
  the one of the render that created the calling \<^verbatim>\<open>handleAnalyze\<close>. An exception
  of the sanitizer or of the template literal leaves the function before anything is
  changed.
\<close>

definition saveToHistory :: "env \<Rightarrow> jsval \<Rightarrow> app \<Rightarrow> error + app" where
  "saveToHistory e newData st =
     (case sanitizeData newData of
        Inl err \<Rightarrow> Inl err
      | Inr sanitizedData \<Rightarrow>
          (case newItem (numberToString e) (nowId e) (nowDate e) sanitizedData of
             Inl err \<Rightarrow> Inl err
           | Inr item \<Rightarrow>
               (let updated = updatedHistory item (capturedHistory st)
                in Inr (st\<lparr> history := updated,
                             storage := Some (stringify e (JArr (map JObj updated))) \<rparr>))))"

text \<open>No two items of a history have the same key (\<^verbatim>\<open>===\<close>).\<close>

fun distinctIds :: "(string \<times> jsval) list list \<Rightarrow> bool" where
  "distinctIds [] = True"
| "distinctIds (h # hs) =
     (list_all (\<lambda>h'. \<not> strictEq (itemId h') (itemId h)) hs \<and> distinctIds hs)"

text \<open>
  The map of the load effect,
  \<^verbatim>\<open>(item: HistoryItem) => ({ ...item, data: sanitizeData(item.data) })\<close>:
  \<^verbatim>\<open>item.data\<close> throws for undefined and null.
\<close>

definition loadItem :: "jsval \<Rightarrow> error + (string \<times> jsval) list" where
  "loadItem item =
     (if nullish item then Inl TypeError
      else
        (case sanitizeData (getProp item ''data'') of
           Inl err \<Rightarrow> Inl err
         | Inr d \<Rightarrow> Inr (setProp ''data'' d (spread item))))"

text \<open>
  The effect that runs once when the component is mounted. \<open>parse\<close> is
  \<^verbatim>\<open>JSON.parse\<close>, \<open>None\<close> where it throws. Whatever is thrown inside the
  \<^verbatim>\<open>try\<close> is caught, and the entry is removed; so it is when the content is no array.
  The render that follows changes no dependency of \<^verbatim>\<open>handleAnalyze\<close>.
\<close>

definition loadHistory :: "(string \<Rightarrow> jsval option) \<Rightarrow> app \<Rightarrow> app" where
  "loadHistory parse st =
     (case storage st of
        None \<Rightarrow> st
      | Some saved \<Rightarrow>
          if saved = [] then st
          else
            (case parse saved of
               None \<Rightarrow> st\<lparr> storage := None \<rparr>
             | Some parsedHistory \<Rightarrow>
                 if isArray parsedHistory then
                   (case mapE loadItem (ensureArray parsedHistory) of
                      Inl err \<Rightarrow> st\<lparr> storage := None \<rparr>
                    | Inr safeHistory \<Rightarrow> st\<lparr> history := safeHistory \<rparr>)
                 else st\<lparr> storage := None \<rparr>))"

subsection \<open>Analysis of a URL\<close>

text \<open>
  The guard of \<^verbatim>\<open>handleAnalyze\<close> after the service has answered, with
  \<open>videoId = getYouTubeId url\<close>:
  \<^verbatim>\<open>if (videoId && result.videoId && result.videoId !== videoId
       && result.videoId !== "NOT_FOUND") {
    throw new Error(`Analysis Mismatch: The AI analyzed a different video (ID: ${result.videoId}).`);
  }\<close>
  When the identifier of the record cannot be written as a string, the exception is the
  TypeError of the template literal.
\<close>

definition mismatchMessage :: "string \<Rightarrow> string" where
  "mismatchMessage resultId =
     ''Analysis Mismatch: The AI analyzed a different video (ID: '' @ resultId @ '').''"

definition mismatchCheck :: "(int \<Rightarrow> string) \<Rightarrow> string option \<Rightarrow> jsval \<Rightarrow> error + jsval" where
  "mismatchCheck num videoId result =
     (case videoId of
        None \<Rightarrow> Inr result
      | Some requested \<Rightarrow>
          if nullish result then Inl TypeError
          else if truthy (getProp result ''videoId'') \<and>
                  \<not> strictEq (getProp result ''videoId'') (JStr requested) \<and>
                  \<not> strictEq (getProp result ''videoId'') (JStr ''NOT_FOUND'')
          then (case toStr num (getProp result ''videoId'') of
                  Inl err \<Rightarrow> Inl err
                | Inr s \<Rightarrow> Inl (Error (mismatchMessage s)))
          else Inr result)"

text \<open>
  \<^verbatim>\<open>handleAnalyze\<close>, from the click to the state in which the promise has settled
  (no other event in between). A validation error ends it before the loading state is
  entered and before any call of the service.
\<close>

definition finishAnalysis :: "env \<Rightarrow> error + jsval \<Rightarrow> app \<Rightarrow> app" where
  "finishAnalysis e outcome st =
     (case outcome of
        Inl err \<Rightarrow> st\<lparr> error := Some (message err), isLoading := False \<rparr>
      | Inr result \<Rightarrow>
          (let st' = st\<lparr> loadingStep := ''Finalizing insights...'', data := Some result \<rparr>
           in case saveToHistory e result st' of
                Inl err \<Rightarrow> st'\<lparr> error := Some (message err), isLoading := False \<rparr>
              | Inr st'' \<Rightarrow> st''\<lparr> isLoading := False \<rparr>))"

definition handleAnalyze :: "env \<Rightarrow> app \<Rightarrow> app" where
  "handleAnalyze e st0 =
     (let st = st0\<lparr> error := None \<rparr>
      in if inputMode st = ModeUrl \<and> validateYouTubeUrl (hostnameOf e) (url st) \<noteq> None
         then st\<lparr> error := validateYouTubeUrl (hostnameOf e) (url st) \<rparr>
         else if inputMode st = ModeTranscript \<and> trim (transcript st) = []
         then st\<lparr> error := Some ''Please provide a transcript.'' \<rparr>
         else
           (let st1 = st\<lparr> isLoading := True, data := None,
                            loadingStep := ''Initializing analysis...'' \<rparr>
            in case inputMode st of
                 ModeTranscript \<Rightarrow>
                   (let r = AnalyzeTranscript (transcript st) (url st) (videoTypeFilter st)
                    in finishAnalysis e (respond e r)
                         (st1\<lparr> loadingStep := ''Processing transcript data...'',
                                requests := requests st1 @ [r] \<rparr>))
               | ModeUrl \<Rightarrow>
                   (let r = AnalyzeUrlWithGrounding (url st) (videoTypeFilter st)
                    in finishAnalysis e
                         (thenE (respond e r)
                            (mismatchCheck (numberToString e) (getYouTubeId (url st))))
                         (st1\<lparr> loadingStep := ''Analyzing text & comparing with metadata...'',
                                requests := requests st1 @ [r] \<rparr>))
               | ModeAudio \<Rightarrow>
                   finishAnalysis e (Inl (Error ''Invalid input mode.'')) st1))"

text \<open>
  The button that runs \<^verbatim>\<open>handleAnalyze\<close> is disabled while an analysis is loading
  and when the data shown belong to the current input:
  \<^verbatim>\<open>const isAnalysisComplete = !!(data && !isLoading && (
      (inputMode === 'url' && videoId && data.videoId === videoId) ||
      (inputMode === 'transcript' && data.transcript === transcript && transcript.length > 0)));\<close>
\<close>

definition isAnalysisComplete :: "app \<Rightarrow> bool" where
  "isAnalysisComplete st =
     (case data st of
        None \<Rightarrow> False
      | Some d \<Rightarrow>
          truthy d \<and> \<not> isLoading st \<and>
          ((inputMode st = ModeUrl \<and>
            (case getYouTubeId (url st) of
               None \<Rightarrow> False
             | Some videoId \<Rightarrow> strictEq (getProp d ''videoId'') (JStr videoId))) \<or>
           (inputMode st = ModeTranscript \<and>
            strictEq (getProp d ''transcript'') (JStr (transcript st)) \<and> transcript st \<noteq> [])))"

text \<open>What the user does, one event after the other.\<close>

datatype appEvent =
    TypeUrl string
  | TypeTranscript string
  | ChooseMode inputMode
  | ChooseType string
  | ClickAnalyze env

fun appStep :: "appEvent \<Rightarrow> app \<Rightarrow> app" where
  "appStep (TypeUrl u) st = setUrl u st"
| "appStep (TypeTranscript t) st = setTranscript t st"
| "appStep (ChooseMode m) st = setInputMode m st"
| "appStep (ChooseType f) st = setVideoTypeFilter f st"
| "appStep (ClickAnalyze e) st =
     (if isLoading st \<or> isAnalysisComplete st then st else handleAnalyze e st)"

fun appRun :: "appEvent list \<Rightarrow> app \<Rightarrow> app" where
  "appRun [] st = st"
| "appRun (ev # evs) st = appRun evs (appStep ev st)"

text \<open>
  The service that asks the model directly (geminiService.ts, lines 338 to 409) ends,
  after the answer was parsed and sanitized, with a check of the sentinel:
  \<^verbatim>\<open>if (data.videoId === "NOT_FOUND") { throw new Error(`Video Not Found: ...`); }
  return data;\<close>
  \<open>videoTitle\<close> is the title found by the metadata lookup, or "YouTube Video".
  The service that goes through the backend (lines 538 to 555), which is the one this
  component imports, returns the sanitized answer of the backend and has no such check.
\<close>

definition notFoundMessage :: "string \<Rightarrow> string" where
  "notFoundMessage videoTitle =
     ''Video Not Found: The AI could not locate a transcript, description, or detailed summary for \"''
     @ videoTitle @
     ''\". \<newline>\<newline>Tip: Try 'Audio / Upload' mode to analyze it directly.''"

definition notFoundCheck :: "string \<Rightarrow> jsval \<Rightarrow> error + jsval" where
  "notFoundCheck videoTitle d =
     (if strictEq (getProp d ''videoId'') (JStr ''NOT_FOUND'')
      then Inl (Error (notFoundMessage videoTitle))
      else Inr d)"

section \<open>The chat (components/ChatInterface.tsx, the version with two contexts)\<close>

datatype chatContext = Video | Research

datatype role = User | Model

record ChatMessage =
  role :: role
  content :: string
  timestamp :: nat

text \<open>
  The state of the component: the active context, one message list for each context, the
  input field and the component's single \<^verbatim>\<open>isLoading\<close> flag (\<open>chatIsLoading\<close>
  here). \<open>researchData\<close> tells whether the property of that name is there.
  \<open>inFlight\<close> lists the questions whose answer is awaited, each with the context
  that \<^verbatim>\<open>handleSend\<close> captured in \<^verbatim>\<open>contextToUse\<close>.
\<close>

record chat =
  activeContext :: chatContext
  videoMessages :: "ChatMessage list"
  researchMessages :: "ChatMessage list"
  input :: string
  chatIsLoading :: bool
  researchData :: bool
  inFlight :: "chatContext list"

text \<open>
  \<^verbatim>\<open>if (contextToUse === 'video') setVideoMessages(prev => [...prev, m]);
  else setResearchMessages(prev => [...prev, m]);\<close>
\<close>

definition appendMessage :: "chatContext \<Rightarrow> ChatMessage \<Rightarrow> chat \<Rightarrow> chat" where
  "appendMessage c m st =
     (if c = Video then st\<lparr> videoMessages := videoMessages st @ [m] \<rparr>
      else st\<lparr> researchMessages := researchMessages st @ [m] \<rparr>)"

text \<open>
  \<^verbatim>\<open>handleSend\<close> up to its first \<^verbatim>\<open>await\<close>. \<open>now\<close> and \<open>later\<close> are the
  readings of the clock. In the research context without research data nothing is
  awaited: the answer "Context unavailable." is appended at once.
\<close>

definition handleSend :: "string option \<Rightarrow> nat \<Rightarrow> nat \<Rightarrow> chat \<Rightarrow> chat" where
  "handleSend textInput now later st =
     (let text = (case textInput of
                    Some t \<Rightarrow> if t \<noteq> [] then t else input st
                  | None \<Rightarrow> input st)
      in if trim text = [] \<or> chatIsLoading st then st
         else
           (let userMessage = \<lparr> role = User, content = text, timestamp = now \<rparr>;
                contextToUse = activeContext st;
                st1 = (appendMessage contextToUse userMessage st)
                        \<lparr> input := [], chatIsLoading := True \<rparr>
            in if contextToUse = Video \<or> researchData st
               then st1\<lparr> inFlight := inFlight st1 @ [contextToUse] \<rparr>
               else (appendMessage contextToUse
                       \<lparr> role = Model, content = ''Context unavailable.'', timestamp = later \<rparr> st1)
                      \<lparr> chatIsLoading := False \<rparr>))"

text \<open>
  The rest of \<^verbatim>\<open>handleSend\<close>, when the awaited promise number \<open>i\<close> settles: with
  the answer, or rejected (\<open>None\<close>). The message goes to the captured context and
  \<^verbatim>\<open>finally\<close> clears the flag.
\<close>

definition settle :: "nat \<Rightarrow> string option \<Rightarrow> nat \<Rightarrow> chat \<Rightarrow> chat" where
  "settle i answer now st =
     (if i < length (inFlight st) then
        (appendMessage (inFlight st ! i)
           \<lparr> role = Model,
             content = (case answer of Some t \<Rightarrow> t | None \<Rightarrow> ''Error generating response.''),
             timestamp = now \<rparr> st)
          \<lparr> chatIsLoading := False, inFlight := take i (inFlight st) @ drop (Suc i) (inFlight st) \<rparr>
      else st)"

datatype chatEvent =
    Send "string option" nat nat
  | Settle nat "string option" nat
  | SetContext chatContext

fun chatStep :: "chatEvent \<Rightarrow> chat \<Rightarrow> chat" where
  "chatStep (Send textInput now later) st = handleSend textInput now later st"
| "chatStep (Settle i answer now) st = settle i answer now st"
| "chatStep (SetContext c) st = st\<lparr> activeContext := c \<rparr>"

fun chatRun :: "chatEvent list \<Rightarrow> chat \<Rightarrow> chat" where
  "chatRun [] st = st"
| "chatRun (ev # evs) st = chatRun evs (chatStep ev st)"

text \<open>
  At most one question is awaited, and the flag \<^verbatim>\<open>isLoading\<close> is set exactly while
  one is.
\<close>

definition chatInv :: "chat \<Rightarrow> bool" where
  "chatInv st = (length (inFlight st) \<le> 1 \<and> (chatIsLoading st = (inFlight st \<noteq> [])))"

text \<open>The chat of a video with research data, before the first question.\<close>

definition exampleChat :: chat where
  "exampleChat =
     \<lparr> activeContext = Video,
       videoMessages = [\<lparr> role = Model, content = ''Hi!'', timestamp = 0 \<rparr>],
       researchMessages = [\<lparr> role = Model, content = ''I have analyzed the topic.'', timestamp = 0 \<rparr>],
       input = [], chatIsLoading = False, researchData = True, inFlight = [] \<rparr>"

section \<open>Example inputs\<close>

text \<open>
  \<^verbatim>\<open>new URL(u).hostname\<close> and \<^verbatim>\<open>JSON.parse\<close> on the texts of the examples:
  each knows the texts listed and answers every other text as the built-in answers a
  text that is no URL, or no JSON; the examples give them no other text for which that
  would be wrong.
\<close>

definition exampleHostname :: "string \<Rightarrow> string option" where
  "exampleHostname u =
     (if u = ''https://youtu.be/dQw4w9WgXcQ'' then Some ''youtu.be''
      else if u = ''https://example.com/video'' then Some ''example.com''
      else None)"

definition exampleParse :: "string \<Rightarrow> jsval option" where
  "exampleParse s =
     (if s = ''[{\"id\":\"a\",\"data\":{\"title\":\"T\"}}]''
      then Some (JArr [JObj [(''id'', JStr ''a''), (''data'', JObj [(''title'', JStr ''T'')])]])
      else if s = ''{}'' then Some (JObj [])
      else if s = ''{\"a\":1}'' then Some (JObj [(''a'', JNum 1)])
      else None)"

text \<open>
  An environment whose service answers with the record \<open>answer\<close>, sanitized as both
  services do before they return, and whose clock reads \<open>t\<close>. Its way of writing a
  number is the decimal one, which is the engine's for whole numbers below
  \<open>2\<^sup>5\<^sup>3\<close>; the stored text stands for that of \<^verbatim>\<open>JSON.stringify\<close>, which no
  example looks at.
\<close>

definition exampleEnv :: "jsval \<Rightarrow> nat \<Rightarrow> env" where
  "exampleEnv answer t =
     \<lparr> hostnameOf = exampleHostname, respond = (\<lambda>r. sanitizeData answer),
       stringify = (\<lambda>v. ''(stored)''),
       numberToString = (\<lambda>n. if n < 0 then CHR ''-'' # decimal (nat (- n)) else decimal (nat n)),
       nowId = t, nowDate = t \<rparr>"

text \<open>The application with a URL typed in.\<close>

definition exampleUrlApp :: "string \<Rightarrow> app" where
  "exampleUrlApp u = setUrl u (initialApp None)"

text \<open>
  A session: the stored history holds the video \<open>a\<close>; the user chooses the transcript
  mode, pastes a transcript and has it analyzed three times, at the times 1, 2 and 3;
  the answers carry no video identifier.
\<close>

definition exampleSession :: "appEvent list" where
  "exampleSession =
     [ChooseMode ModeTranscript, TypeTranscript ''hello world'',
      ClickAnalyze (exampleEnv (JObj [(''title'', JStr ''first'')]) 1),
      ClickAnalyze (exampleEnv (JObj [(''title'', JStr ''second'')]) 2),
      ClickAnalyze (exampleEnv (JObj [(''title'', JStr ''third'')]) 3)]"

text \<open>The same session with the transcript edited before each further analysis.\<close>

definition exampleEditedSession :: "appEvent list" where
  "exampleEditedSession =
     [ChooseMode ModeTranscript, TypeTranscript ''hello world'',
      ClickAnalyze (exampleEnv (JObj [(''title'', JStr ''first'')]) 1),
      TypeTranscript ''hello world!'',
      ClickAnalyze (exampleEnv (JObj [(''title'', JStr ''second'')]) 2),
      TypeTranscript ''hello world!!'',
      ClickAnalyze (exampleEnv (JObj [(''title'', JStr ''third'')]) 3)]"

definition exampleStored :: string where
  "exampleStored = ''[{\"id\":\"a\",\"data\":{\"title\":\"T\"}}]''"

section \<open>Properties of the sanitizer\<close>

subsection \<open>Objects\<close>

lemma map_of_setProp: "map_of (setProp k v ps) k' = (if k' = k then Some v else map_of ps k')"
  by (induction ps) auto

lemma setProp_same: "map_of ps k = Some v \<Longrightarrow> setProp k v ps = ps"
  by (induction ps) (auto split: if_splits)

lemma map_of_assignProps:
  "map_of (assignProps ps obj) k =
     (case map_of (rev ps) k of Some v \<Rightarrow> Some v | None \<Rightarrow> map_of obj k)"
  by (induction ps arbitrary: obj)
     (auto simp: map_of_setProp map_add_def split: option.splits)

lemma assignProps_same:
  "list_all (\<lambda>(k, v). map_of obj k = Some v) ps \<Longrightarrow> assignProps ps obj = obj"
  by (induction ps obj rule: assignProps.induct) (auto simp: setProp_same)

lemma truthy_or_else: "truthy b \<Longrightarrow> truthy (or_else a b)"
  by (simp add: or_else_def)

lemma or_else_truthy: "truthy a \<Longrightarrow> or_else a b = a"
  by (simp add: or_else_def)

subsection \<open>Study sections\<close>

lemma mapE_fix:
  assumes "\<And>x y. f x = Inr y \<Longrightarrow> f y = Inr y"
  shows "mapE f xs = Inr ys \<Longrightarrow> mapE f ys = Inr ys"
  by (induction xs arbitrary: ys) (auto split: sum.splits simp: assms)

lemma mapE_length: "mapE f xs = Inr ys \<Longrightarrow> length ys = length xs"
  by (induction xs arbitrary: ys) (auto split: sum.splits)

lemma sanitizeSection_fix: "sanitizeSection s = Inr t \<Longrightarrow> sanitizeSection t = Inr t"
  by (auto simp: sanitizeSection_def map_of_setProp setProp_same split: if_splits)

lemma sanitizeSection_points:
  "sanitizeSection s = Inr t \<Longrightarrow> isArray (getProp t ''points'')"
  by (auto simp: sanitizeSection_def map_of_setProp split: if_splits)

lemma sections_points:
  "mapE sanitizeSection xs = Inr ys \<Longrightarrow> list_all (\<lambda>s. isArray (getProp s ''points'')) ys"
  by (induction xs arbitrary: ys) (auto split: sum.splits dest: sanitizeSection_points)

text \<open>The study notes are mapped without an exception exactly when no section is
  undefined or null; otherwise the exception is the TypeError of \<^verbatim>\<open>s.points\<close>.\<close>

lemma sections_return:
  "list_all (\<lambda>s. \<not> nullish s) xs \<Longrightarrow> \<exists>ys. mapE sanitizeSection xs = Inr ys"
  by (induction xs) (auto simp: sanitizeSection_def)

lemma sections_throw:
  "\<not> list_all (\<lambda>s. \<not> nullish s) xs \<Longrightarrow> mapE sanitizeSection xs = Inl TypeError"
  by (induction xs) (auto simp: sanitizeSection_def split: sum.splits)

subsection \<open>The record\<close>

lemma sanitizedFields_lookup:
  "map_of (rev (sanitizedFields d secs)) k =
    (if k = ''videoType'' then Some (or_else (getProp d ''videoType'') (JStr ''General''))
     else if k = ''timestamps'' then Some (JArr (ensureArray (getProp d ''timestamps'')))
     else if k = ''themes'' then Some (JArr (ensureArray (getProp d ''themes'')))
     else if k = ''studyNotes'' then Some (JArr secs)
     else if k = ''quotes'' then Some (JArr (ensureArray (getProp d ''quotes'')))
     else if k = ''speakers'' then Some (JArr (ensureArray (getProp d ''speakers'')))
     else if k = ''subTopics'' then Some (JArr (ensureArray (getProp d ''subTopics'')))
     else if k = ''reviewDetails'' then Some (sanitizeReview (getProp d ''reviewDetails''))
     else None)"
  by (simp add: sanitizedFields_def)

lemma getProp_sanitized:
  "getProp (JObj (assignProps (sanitizedFields d secs) obj)) k =
    (if k = ''videoType'' then or_else (getProp d ''videoType'') (JStr ''General'')
     else if k = ''timestamps'' then JArr (ensureArray (getProp d ''timestamps''))
     else if k = ''themes'' then JArr (ensureArray (getProp d ''themes''))
     else if k = ''studyNotes'' then JArr secs
     else if k = ''quotes'' then JArr (ensureArray (getProp d ''quotes''))
     else if k = ''speakers'' then JArr (ensureArray (getProp d ''speakers''))
     else if k = ''subTopics'' then JArr (ensureArray (getProp d ''subTopics''))
     else if k = ''reviewDetails'' then sanitizeReview (getProp d ''reviewDetails'')
     else getProp (JObj obj) k)"
  by (simp add: map_of_assignProps sanitizedFields_lookup)

lemma sanitizeReview_fix: "sanitizeReview (sanitizeReview rd) = sanitizeReview rd"
  by (simp add: sanitizeReview_def or_else_truthy truthy_or_else)

lemma sanitizedFields_fix:
  "sanitizedFields (JObj (assignProps (sanitizedFields d secs) obj)) secs = sanitizedFields d secs"
  unfolding sanitizedFields_def[of "JObj _"] getProp_sanitized
  by (simp add: sanitizedFields_def or_else_truthy truthy_or_else sanitizeReview_fix)

lemma assignProps_fix:
  "assignProps (sanitizedFields d secs) (assignProps (sanitizedFields d secs) obj) =
   assignProps (sanitizedFields d secs) obj"
  by (rule assignProps_same)
     (simp add: map_of_assignProps sanitizedFields_lookup, simp add: sanitizedFields_def)

text \<open>What \<^verbatim>\<open>sanitizeData\<close> returns, and when.\<close>

lemma sanitizeData_falsy: "\<not> truthy x \<Longrightarrow> sanitizeData x = Inr (JObj [])"
  by (simp add: sanitizeData_def)

lemma sanitizeData_Inr:
  assumes "truthy x" and "sanitizeData x = Inr r"
  obtains secs where
    "mapE sanitizeSection (ensureArray (getProp x ''studyNotes'')) = Inr secs" and
    "r = JObj (assignProps (sanitizedFields x secs) (spread x))"
  using assms by (auto simp: sanitizeData_def split: sum.splits)

lemma sanitizeData_returns:
  assumes "truthy x" and "list_all (\<lambda>s. \<not> nullish s) (ensureArray (getProp x ''studyNotes''))"
  shows "\<exists>r. sanitizeData x = Inr r"
  using sections_return[OF assms(2)] assms(1) by (auto simp: sanitizeData_def)

lemma sanitizeData_throws:
  assumes "truthy x" and "\<not> list_all (\<lambda>s. \<not> nullish s) (ensureArray (getProp x ''studyNotes''))"
  shows "sanitizeData x = Inl TypeError"
  using sections_throw[OF assms(2)] assms(1) by (simp add: sanitizeData_def)

lemma sanitizeData_fix:
  assumes "truthy x" and "sanitizeData x = Inr y"
  shows "sanitizeData y = Inr y"
proof -
  from assms obtain secs where
    secs: "mapE sanitizeSection (ensureArray (getProp x ''studyNotes'')) = Inr secs" and
    y: "y = JObj (assignProps (sanitizedFields x secs) (spread x))"
    by (rule sanitizeData_Inr)
  have "mapE sanitizeSection secs = Inr secs"
    using secs by (rule mapE_fix[rotated]) (rule sanitizeSection_fix)
  then show ?thesis
    by (simp add: y sanitizeData_def getProp_sanitized sanitizedFields_fix assignProps_fix
          del: getProp.simps)
qed

section \<open>The history store\<close>

subsection \<open>Saving\<close>

lemma strictEq_sym: "strictEq a b = strictEq b a"
  by (cases a; cases b) auto

lemma distinctIds_filter: "distinctIds hs \<Longrightarrow> distinctIds (filter P hs)"
  by (induction hs) (auto simp: list_all_iff)

lemma distinctIds_take: "distinctIds hs \<Longrightarrow> distinctIds (take n hs)"
proof (induction hs arbitrary: n)
  case Nil
  then show ?case by simp
next
  case (Cons h hs)
  show ?case
  proof (cases n)
    case 0
    then show ?thesis by simp
  next
    case (Suc m)
    with Cons show ?thesis
      by (auto simp: list_all_iff dest: in_set_takeD)
  qed
qed

lemma distinctIds_updated: "distinctIds hs \<Longrightarrow> distinctIds (updatedHistory x hs)"
  unfolding updatedHistory_def
  by (rule distinctIds_take) (simp add: distinctIds_filter list_all_iff)

lemma length_updated: "length (updatedHistory x hs) \<le> 10"
  by (simp add: updatedHistory_def)

lemma hd_updated: "hd (updatedHistory x hs) = x"
  by (simp add: updatedHistory_def)

lemma tl_updated:
  "list_all (\<lambda>h. \<not> strictEq (itemId h) (itemId x)) (tl (updatedHistory x hs))"
  by (auto simp: updatedHistory_def list_all_iff tl_take dest!: in_set_takeD)

lemma newItem_Inr:
  assumes "newItem num t1 t2 sd = Inr item"
  shows "itemId item = or_else (getProp sd ''videoId'') (JStr (decimal t1))"
    and "getProp (JObj item) ''data'' = sd"
  using assms by (auto simp: newItem_def itemId_def split: sum.splits)

text \<open>
  One save, when it returns: the record was sanitized, the new item is keyed by the
  record's video identifier when that is truthy and by the clock reading otherwise, and
  the new history is the new item before the items of another key that the calling
  \<^verbatim>\<open>handleAnalyze\<close> sees, cut to ten items.
\<close>

lemma saveToHistory_Inr:
  assumes "saveToHistory e d st = Inr st'"
  obtains sd item where "sanitizeData d = Inr sd"
    and "newItem (numberToString e) (nowId e) (nowDate e) sd = Inr item"
    and "history st' = updatedHistory item (capturedHistory st)"
    and "capturedHistory st' = capturedHistory st"
    and "storage st' = Some (stringify e (JArr (map JObj (history st'))))"
  using assms by (auto simp: saveToHistory_def Let_def split: sum.splits)

lemma saveToHistory_item:
  assumes "saveToHistory e d st = Inr st'"
  shows "\<exists>sd item. sanitizeData d = Inr sd \<and>
           itemId item = or_else (getProp sd ''videoId'') (JStr (decimal (nowId e))) \<and>
           getProp (JObj item) ''data'' = sd \<and>
           history st' =
             take 10 (item # filter (\<lambda>h. \<not> strictEq (itemId h) (itemId item)) (capturedHistory st)) \<and>
           list_all (\<lambda>h. \<not> strictEq (itemId h) (itemId item)) (tl (history st')) \<and>
           length (history st') \<le> 10"
proof -
  from assms obtain sd item where sd: "sanitizeData d = Inr sd"
    and item: "newItem (numberToString e) (nowId e) (nowDate e) sd = Inr item"
    and h: "history st' = updatedHistory item (capturedHistory st)"
    by (rule saveToHistory_Inr)
  have "history st' =
      take 10 (item # filter (\<lambda>h. \<not> strictEq (itemId h) (itemId item)) (capturedHistory st))"
    using h by (simp add: updatedHistory_def)
  moreover have "list_all (\<lambda>h. \<not> strictEq (itemId h) (itemId item)) (tl (history st'))"
    unfolding h by (rule tl_updated)
  moreover have "length (history st') \<le> 10"
    unfolding h by (rule length_updated)
  ultimately show ?thesis
    using sd newItem_Inr[OF item] by blast
qed

text \<open>
  Whatever the user does, a history without duplicate keys and with at most ten items
  stays so, and so does the history that the memoized \<^verbatim>\<open>handleAnalyze\<close> sees.
\<close>

lemma finishAnalysis_history:
  "capturedHistory (finishAnalysis e outcome st) = capturedHistory st \<and>
   (history (finishAnalysis e outcome st) = history st \<or>
    (\<exists>item. history (finishAnalysis e outcome st) = updatedHistory item (capturedHistory st)))"
  by (auto simp: finishAnalysis_def saveToHistory_def Let_def split: sum.splits)

lemma handleAnalyze_history:
  "capturedHistory (handleAnalyze e st) = capturedHistory st \<and>
   (history (handleAnalyze e st) = history st \<or>
    (\<exists>item. history (handleAnalyze e st) = updatedHistory item (capturedHistory st)))"
proof -
  have "capturedHistory (finishAnalysis e outcome s) = capturedHistory st \<and>
   (history (finishAnalysis e outcome s) = history st \<or>
    (\<exists>item. history (finishAnalysis e outcome s) = updatedHistory item (capturedHistory st)))"
    if "capturedHistory s = capturedHistory st" and "history s = history st" for outcome s
    using finishAnalysis_history[of e outcome s] that by simp
  then show ?thesis
    by (simp add: handleAnalyze_def Let_def split: inputMode.splits)
qed

lemma appStep_history:
  assumes "distinctIds (history st) \<and> length (history st) \<le> 10" 
    and "distinctIds (capturedHistory st) \<and> length (capturedHistory st) \<le> 10"
  shows "(distinctIds (history (appStep ev st)) \<and> length (history (appStep ev st)) \<le> 10) \<and>
         (distinctIds (capturedHistory (appStep ev st)) \<and> length (capturedHistory (appStep ev st)) \<le> 10)"
proof (cases ev)
  case (ClickAnalyze e)
  show ?thesis
    using assms handleAnalyze_history[of e st]
    unfolding ClickAnalyze by (auto simp: distinctIds_updated length_updated)
qed (use assms in \<open>simp_all add: setUrl_def setTranscript_def setInputMode_def
       setVideoTypeFilter_def recreated_def\<close>)

lemma appRun_history:
  assumes "distinctIds (history st) \<and> length (history st) \<le> 10" 
    and "distinctIds (capturedHistory st) \<and> length (capturedHistory st) \<le> 10"
  shows "distinctIds (history (appRun evs st)) \<and> length (history (appRun evs st)) \<le> 10"
  using assms
proof (induction evs arbitrary: st)
  case Nil
  then show ?case by simp
next
  case (Cons ev evs)
  from appStep_history[OF Cons.prems, of ev] Cons.IH[of "appStep ev st"]
  show ?case by simp
qed

subsection \<open>Loading\<close>

lemma loadItem_all:
  "mapE loadItem items = Inr safe \<Longrightarrow>
   list_all2 (\<lambda>item h. \<not> nullish item \<and>
       (\<exists>d. sanitizeData (getProp item ''data'') = Inr d \<and> h = setProp ''data'' d (spread item)))
     items safe"
  by (induction items arbitrary: safe) (auto simp: loadItem_def split: sum.splits if_splits)

section \<open>Fence stripping\<close>

lemma startsWith_Cons:
  "startsWith (p # ps) (c # cs) = (p = c \<and> startsWith ps cs)"
  by (auto simp: startsWith_def)

lemma startsWith_Nil [simp]: "startsWith [] s"
  by (simp add: startsWith_def)

lemma startsWith_append [simp]: "startsWith p (p @ s)"
  by (simp add: startsWith_def)

lemma startsWith_appendI: "startsWith p s \<Longrightarrow> startsWith p (s @ b)"
proof -
  assume a: "startsWith p s"
  then have "length (take (length p) s) = length p" by (simp add: startsWith_def)
  then have "length p \<le> length s" by simp
  with a show ?thesis by (simp add: startsWith_def)
qed

lemma strIncludes_Nil [simp]: "strIncludes s []"
  by (cases s) simp_all

lemma strIncludes_appendR: "strIncludes s p \<Longrightarrow> strIncludes (s @ b) p"
proof (induction s)
  case Nil
  then show ?case by simp
next
  case (Cons c cs)
  then show ?case using startsWith_appendI[of p "c # cs" b] by auto
qed

lemma strIncludes_append: "strIncludes s p \<Longrightarrow> strIncludes (a @ s @ b) p"
  by (induction a) (simp_all add: strIncludes_appendR)

lemma trim_padded:
  assumes "list_all isWhiteSpace ws1" and "list_all isWhiteSpace ws2"
    and "obj \<noteq> []" and "\<not> isWhiteSpace (hd obj)" and "\<not> isWhiteSpace (last obj)"
  shows "trim (ws1 @ obj @ ws2) = obj"
proof -
  from assms(3) obtain c cs where obj: "obj = c # cs" by (cases obj) auto
  have 1: "dropWhile isWhiteSpace (ws1 @ obj @ ws2) = obj @ ws2"
    using assms(1,4) obj by (simp add: dropWhile_append2 list_all_iff)
  have "rev (obj @ ws2) = rev ws2 @ rev obj" by simp
  moreover have "dropWhile isWhiteSpace (rev ws2 @ rev obj) = rev obj"
  proof -
    have "rev obj \<noteq> []" "hd (rev obj) = last obj" using assms(3) by (simp_all add: hd_rev)
    then obtain d ds where r: "rev obj = d # ds" and d: "d = last obj" by (cases "rev obj") auto
    have "dropWhile isWhiteSpace (rev ws2 @ d # ds) = dropWhile isWhiteSpace (d # ds)"
      by (rule dropWhile_append2) (use assms(2) in \<open>auto simp: list_all_iff\<close>)
    then show ?thesis unfolding r using assms(5) d by simp
  qed
  ultimately show ?thesis using 1 by (simp add: trim_def)
qed

text \<open>
  Where the first fence of a text is: a fence that begins before the end of \<open>p\<close>
  would lie in \<open>p\<close> followed by two backquotes.
\<close>

lemma startsWith_fence_split:
  "p \<noteq> [] \<Longrightarrow> startsWith ''```'' (p @ ''```'' @ r) = startsWith ''```'' (p @ ''``'')"
proof (cases p)
  case Nil
  assume "p \<noteq> []"
  with Nil show ?thesis by simp
next
  case p: (Cons c p1)
  show ?thesis
  proof (cases p1)
    case Nil
    with p show ?thesis by (simp add: startsWith_def)
  next
    case p1: (Cons d p2)
    show ?thesis
    proof (cases p2)
      case Nil
      with p p1 show ?thesis by (simp add: startsWith_def)
    next
      case (Cons e p3)
      with p p1 show ?thesis by (simp add: startsWith_def)
    qed
  qed
qed

lemma afterFirst_fence:
  "\<not> strIncludes (p @ ''``'') ''```'' \<Longrightarrow> afterFirst ''```'' (p @ ''```'' @ r) = Some r"
proof (induction p)
  case Nil
  show ?case by (simp add: startsWith_def)
next
  case (Cons c p)
  from Cons.prems have 1: "\<not> startsWith ''```'' ((c # p) @ ''``'')"
    and 2: "\<not> strIncludes (p @ ''``'') ''```''" by simp_all
  from 1 have "\<not> startsWith ''```'' ((c # p) @ ''```'' @ r)"
    by (subst startsWith_fence_split) simp_all
  then have "afterFirst ''```'' ((c # p) @ ''```'' @ r) = afterFirst ''```'' (p @ ''```'' @ r)"
    by simp
  with Cons.IH[OF 2] show ?case by simp
qed

lemma beforeFirst_fence:
  "\<not> strIncludes (p @ ''``'') ''```'' \<Longrightarrow> beforeFirst ''```'' (p @ ''```'' @ r) = Some p"
proof (induction p)
  case Nil
  show ?case by (simp add: startsWith_def)
next
  case (Cons c p)
  from Cons.prems have 1: "\<not> startsWith ''```'' ((c # p) @ ''``'')"
    and 2: "\<not> strIncludes (p @ ''``'') ''```''" by simp_all
  from 1 have "\<not> startsWith ''```'' ((c # p) @ ''```'' @ r)"
    by (subst startsWith_fence_split) simp_all
  then have "beforeFirst ''```'' ((c # p) @ ''```'' @ r) =
      map_option ((#) c) (beforeFirst ''```'' (p @ ''```'' @ r))"
    by simp
  with Cons.IH[OF 2] show ?case by simp
qed

lemma strIncludes_fence: "strIncludes (p @ ''```'' @ r) ''```''"
  using strIncludes_append[of "''```''" "''```''" p r] by (simp add: startsWith_def)

text \<open>No fence begins in a text without backquote, nor across the end of a text
  that does not end with one.\<close>

lemma no_fence_prefix:
  "list_all (\<lambda>c. c \<noteq> CHR 0x60) a \<Longrightarrow> strIncludes (a @ s) ''```'' = strIncludes s ''```''"
  by (induction a) (simp_all add: startsWith_def)

lemma no_fence_across:
  assumes "\<not> strIncludes s ''```''" and "s \<noteq> []" and "last s \<noteq> CHR 0x60"
    and "\<not> strIncludes t ''```''"
  shows "\<not> strIncludes (s @ t) ''```''"
  using assms(1-3)
proof (induction s)
  case Nil
  then show ?case by simp
next
  case (Cons c s)
  from Cons.prems(1) have nst: "\<not> startsWith ''```'' (c # s)"
    and ns: "\<not> strIncludes s ''```''" by simp_all
  have a: "\<not> startsWith ''```'' ((c # s) @ t)"
  proof (cases s)
    case Nil
    with Cons.prems(3) show ?thesis by (simp add: startsWith_def)
  next
    case s: (Cons d s1)
    show ?thesis
    proof (cases s1)
      case Nil
      with s Cons.prems(3) show ?thesis by (simp add: startsWith_def)
    next
      case (Cons e s2)
      with s nst show ?thesis by (simp add: startsWith_def)
    qed
  qed
  have b: "\<not> strIncludes (s @ t) ''```''"
  proof (cases "s = []")
    case True
    with assms(4) show ?thesis by simp
  next
    case False
    with Cons.prems(3) have "last s \<noteq> CHR 0x60" by simp
    with Cons.IH[OF ns False] show ?thesis by simp
  qed
  from a b show ?case by simp
qed

lemma whitespace_no_backtick: "list_all isWhiteSpace ws \<Longrightarrow> list_all (\<lambda>c. c \<noteq> CHR 0x60) ws"
  by (auto simp: list_all_iff isWhiteSpace_def)

lemma no_fence_padded:
  assumes "\<not> strIncludes obj ''```''" and "list_all isWhiteSpace lead"
    and "list_all isWhiteSpace trail" and "obj \<noteq> []" and "last obj \<noteq> CHR 0x60"
  shows "\<not> strIncludes ((lead @ obj @ trail) @ ''``'') ''```''"
proof -
  have "strIncludes (trail @ ''``'') ''```'' = strIncludes ''``'' ''```''"
    by (rule no_fence_prefix) (rule whitespace_no_backtick[OF assms(3)])
  then have t: "\<not> strIncludes (trail @ ''``'') ''```''"
    by (simp add: startsWith_def)
  have "\<not> strIncludes (obj @ (trail @ ''``'')) ''```''"
    by (rule no_fence_across[OF assms(1,4,5) t])
  moreover have "strIncludes (lead @ (obj @ trail @ ''``'')) ''```'' =
      strIncludes (obj @ trail @ ''``'') ''```''"
    by (rule no_fence_prefix) (rule whitespace_no_backtick[OF assms(2)])
  ultimately show ?thesis by simp
qed

lemma specBraceSpan_whole:
  assumes "obj \<noteq> []" and "hd obj = CHR ''{''" and "last obj = CHR ''}''"
  shows "specBraceSpan obj = Some obj"
proof -
  from assms(1,2) obtain cs where obj: "obj = CHR ''{'' # cs" by (cases obj) auto
  then have 1: "dropWhile (\<lambda>c. c \<noteq> CHR ''{'') obj = obj" by simp
  from assms(1,3) have "hd (rev obj) = CHR ''}''" "rev obj \<noteq> []" by (simp_all add: hd_rev)
  then obtain ds where r: "rev obj = CHR ''}'' # ds" by (cases "rev obj") auto
  have 2: "dropWhile (\<lambda>c. c \<noteq> CHR ''}'') (rev obj) = rev obj" unfolding r by simp
  show ?thesis unfolding specBraceSpan_def Let_def 1 2 using assms(1) by simp
qed

lemma parseGenerativeJson_strict:
  "parse (cleanJsonString text) = Some v \<Longrightarrow> parseGenerativeJson parse text = Inr v"
  by (simp add: parseGenerativeJson_def)

text \<open>Whatever \<^verbatim>\<open>JSON.parse\<close> is: when it rejects the fence-stripped text and its
  repair, \<^verbatim>\<open>parseGenerativeJson\<close> throws.\<close>

lemma parseGenerativeJson_throws:
  "parse (cleanJsonString text) = None \<Longrightarrow> parse (repairJson (cleanJsonString text)) = None \<Longrightarrow>
   parseGenerativeJson parse text = Inl (Error ''Failed to parse AI response.'')"
  by (simp add: parseGenerativeJson_def)

lemma cleanJsonString_fenced:
  assumes shape: "deleteMarkers text = pre @ ''```'' @ tag @ ws1 @ obj @ ws2 @ ''```'' @ post"
    and pre: "\<not> strIncludes (pre @ ''``'') ''```''" and objb: "\<not> strIncludes obj ''```''"
    and tag: "tag = [] \<or> tag = ''json''"
    and ws1: "list_all isWhiteSpace ws1" and ws2: "list_all isWhiteSpace ws2"
    and obj: "obj \<noteq> []" "hd obj = CHR ''{''" "last obj = CHR ''}''"
  shows "cleanJsonString text = obj"
proof -
  define g where "g = ws1 @ obj @ ws2"
  have t: "deleteMarkers text = pre @ ''```'' @ tag @ g @ ''```'' @ post"
    by (simp add: shape g_def)
  have gb: "\<not> strIncludes (g @ ''``'') ''```''"
    unfolding g_def using objb ws1 ws2 obj(1) obj(3) by (intro no_fence_padded) simp_all
  have inc: "strIncludes (deleteMarkers text) ''```''"
    unfolding t by (rule strIncludes_fence)
  have behind: "afterFirst ''```'' (deleteMarkers text) = Some (tag @ g @ ''```'' @ post)"
    unfolding t by (rule afterFirst_fence[OF pre])
  have g_head: "\<not> startsWith ''json'' (g @ r)" for r
  proof (cases ws1)
    case Nil
    with obj obtain cs where "obj = CHR ''{'' # cs" by (cases obj) auto
    with Nil show ?thesis by (simp add: g_def startsWith_def)
  next
    case (Cons w ws)
    with ws1 have "isWhiteSpace w" by simp
    then have "w \<noteq> CHR ''j''" by (auto simp: isWhiteSpace_def)
    with Cons show ?thesis by (simp add: g_def startsWith_def)
  qed
  have group: "fencedGroup (deleteMarkers text) = Some g"
  proof (cases "tag = []")
    case True
    then show ?thesis
      using g_head[of "''```'' @ post"] beforeFirst_fence[OF gb, of post]
      by (simp add: fencedGroup_def behind)
  next
    case False
    with tag have "tag = ''json''" by simp
    then show ?thesis
      using beforeFirst_fence[OF gb, of post]
      by (simp add: fencedGroup_def behind startsWith_def)
  qed
  have gne: "g \<noteq> []" using obj(1) by (simp add: g_def)
  have "\<not> isWhiteSpace (hd obj)" "\<not> isWhiteSpace (last obj)"
    using obj by (simp_all add: isWhiteSpace_def)
  then have tg: "trim g = obj" and to: "trim obj = obj"
    using trim_padded[OF ws1 ws2 obj(1)] trim_padded[of "[]" "[]" obj] obj(1)
    by (simp_all add: g_def)
  show ?thesis
    by (simp add: cleanJsonString_def inc group gne tg to)
qed

subsection \<open>The contract of the tolerant parser\<close>

text \<open>
  Prose before an object that is not fenced: fence stripping leaves the text as it is,
  \<^verbatim>\<open>JSON.parse\<close> rejects it, the repair pass changes nothing, and
  \<^verbatim>\<open>parseGenerativeJson\<close> throws, although the span from the first \<^verbatim>\<open>{\<close> to the
  last \<^verbatim>\<open>}\<close> parses. (\<open>exampleParse\<close> answers these texts as \<^verbatim>\<open>JSON.parse\<close>
  does.)
\<close>

theorem parseGenerativeJson_prose_counterexample:
  "specBraceSpan (cleanJsonString ''Here you go: {\"a\":1}'') = Some ''{\"a\":1}'' \<and>
   exampleParse ''{\"a\":1}'' = Some (JObj [(''a'', JNum 1)]) \<and>
   parseGenerativeJson exampleParse ''Here you go: {\"a\":1}'' =
     Inl (Error ''Failed to parse AI response.'')"
  by code_simp

text \<open>
  C1 (as amended). Take the raw text as \<^verbatim>\<open>cleanJsonString\<close> first prepares it:
  trimmed, and with the marker strings \<^verbatim>\<open>ABLES_START\<close> and
  \<^verbatim>\<open>{:.language-json}\<close> deleted. Let it hold an object inside its first code fence:
  prose in which no fence begins, the opening fence with or without the tag
  \<^verbatim>\<open>json\<close>, the object with white space around it, the closing fence, and anything
  behind. Let the object begin with \<^verbatim>\<open>{\<close>, end with \<^verbatim>\<open>}\<close> and hold no fence
  (single backquotes may occur in the prose and in the object). Then the fence-stripped
  text is the object, which is the span from its first \<^verbatim>\<open>{\<close> to its last
  \<^verbatim>\<open>}\<close>, and \<^verbatim>\<open>parseGenerativeJson\<close> returns what strict parsing of that
  span returns.
\<close>

theorem parseGenerativeJson_fenced:
  assumes "deleteMarkers text = pre @ ''```'' @ tag @ lead @ obj @ trail @ ''```'' @ post"
    and "\<not> strIncludes (pre @ ''``'') ''```''" and "\<not> strIncludes obj ''```''"
    and "tag = [] \<or> tag = ''json''"
    and "list_all isWhiteSpace lead" and "list_all isWhiteSpace trail"
    and "obj \<noteq> []" and "hd obj = CHR ''{''" and "last obj = CHR ''}''"
    and "parse obj = Some v"
  shows "cleanJsonString text = obj \<and> specBraceSpan (cleanJsonString text) = Some obj \<and>
         parseGenerativeJson parse text = Inr v"
proof -
  have c: "cleanJsonString text = obj"
    using assms(1-9) by (rule cleanJsonString_fenced)
  moreover have "specBraceSpan obj = Some obj"
    using assms(7-9) by (rule specBraceSpan_whole)
  moreover have "parseGenerativeJson parse text = Inr v"
    using assms(10) c by (simp add: parseGenerativeJson_strict)
  ultimately show ?thesis by simp
qed

theorem parseGenerativeJson_fenced_witness:
  "deleteMarkers ''  Here is the `JSON` ABLES_START you asked for:\<newline>```json\<newline>{\"a\":1}\<newline>``` Bye. '' =
     ''Here is the `JSON`  you asked for:\<newline>'' @ ''```'' @ ''json'' @ ''\<newline>'' @ ''{\"a\":1}'' @
     ''\<newline>'' @ ''```'' @ '' Bye.'' \<and>
   \<not> strIncludes (''Here is the `JSON`  you asked for:\<newline>'' @ ''``'') ''```'' \<and>
   \<not> strIncludes ''{\"a\":1}'' ''```'' \<and>
   list_all isWhiteSpace ''\<newline>'' \<and>
   hd ''{\"a\":1}'' = CHR ''{'' \<and> last ''{\"a\":1}'' = CHR ''}'' \<and>
   exampleParse ''{\"a\":1}'' = Some (JObj [(''a'', JNum 1)]) \<and>
   cleanJsonString ''  Here is the `JSON` ABLES_START you asked for:\<newline>```json\<newline>{\"a\":1}\<newline>``` Bye. '' =
     ''{\"a\":1}'' \<and>
   specBraceSpan (cleanJsonString
     ''  Here is the `JSON` ABLES_START you asked for:\<newline>```json\<newline>{\"a\":1}\<newline>``` Bye. '') =
     Some ''{\"a\":1}'' \<and>
   parseGenerativeJson exampleParse
     ''  Here is the `JSON` ABLES_START you asked for:\<newline>```json\<newline>{\"a\":1}\<newline>``` Bye. '' =
     Inr (JObj [(''a'', JNum 1)])"
proof -
  have 1: "deleteMarkers ''  Here is the `JSON` ABLES_START you asked for:\<newline>```json\<newline>{\"a\":1}\<newline>``` Bye. '' =
     ''Here is the `JSON`  you asked for:\<newline>'' @ ''```'' @ ''json'' @ ''\<newline>'' @ ''{\"a\":1}'' @
     ''\<newline>'' @ ''```'' @ '' Bye.''"
    by code_simp
  have 2: "\<not> strIncludes (''Here is the `JSON`  you asked for:\<newline>'' @ ''``'') ''```''"
    "\<not> strIncludes ''{\"a\":1}'' ''```''"
    by code_simp+
  have 3: "list_all isWhiteSpace ''\<newline>''"
    by code_simp
  have 4: "''{\"a\":1}'' \<noteq> []" "hd ''{\"a\":1}'' = CHR ''{''" "last ''{\"a\":1}'' = CHR ''}''"
    by simp_all
  have 5: "exampleParse ''{\"a\":1}'' = Some (JObj [(''a'', JNum 1)])"
    by code_simp
  have 6: "''json'' = [] \<or> ''json'' = ''json''"
    by simp
  note r = parseGenerativeJson_fenced[where pre = "''Here is the `JSON`  you asked for:\<newline>''"
        and tag = "''json''" and lead = "''\<newline>''" and obj = "''{\"a\":1}''"
        and trail = "''\<newline>''" and post = "'' Bye.''" and parse = exampleParse
        and v = "JObj [(''a'', JNum 1)]", OF 1 2 6 3 3 4 5]
  show ?thesis
    using 1 2 3 4 5 r by blast
qed

section \<open>Video identifiers and validation\<close>

lemma markerAt_Nil: "markerAt [] = None"
  by (simp add: markerAt_def matchesYoutuBe_def matchesUser_def startsWith_def)

lemma afterLastMarker_prefix:
  "list_all (\<lambda>c. \<not> isLineTerminator c) pre \<Longrightarrow> afterLastMarker s = Some r \<Longrightarrow>
   afterLastMarker (pre @ s) = Some r"
  by (induction pre) auto

lemma afterLastMarker_here:
  "markerAt (c # cs) = Some n \<Longrightarrow> afterLastMarker cs = None \<Longrightarrow>
   afterLastMarker (c # cs) = Some (drop n (c # cs))"
  by simp

lemma afterLastMarker_sound:
  "afterLastMarker s = Some r \<Longrightarrow>
   \<exists>pre n rest. s = pre @ rest \<and> markerAt rest = Some n \<and> r = drop n rest"
proof (induction s)
  case Nil
  then show ?case by simp
next
  case (Cons c cs)
  show ?case
  proof (cases "\<not> isLineTerminator c \<and> afterLastMarker cs \<noteq> None")
    case True
    with Cons.prems have "afterLastMarker cs = Some r" by auto
    with Cons.IH obtain pre n rest where "cs = pre @ rest" "markerAt rest = Some n" "r = drop n rest"
      by blast
    then have "c # cs = (c # pre) @ rest \<and> markerAt rest = Some n \<and> r = drop n rest" by simp
    then show ?thesis by blast
  next
    case False
    with Cons.prems obtain n where "markerAt (c # cs) = Some n" "r = drop n (c # cs)"
      by (auto split: option.splits if_splits)
    then have "c # cs = [] @ (c # cs) \<and> markerAt (c # cs) = Some n \<and> r = drop n (c # cs)" by simp
    then show ?thesis by blast
  qed
qed

lemma afterLastMarker_none:
  "(\<And>i. i < length s \<Longrightarrow> markerAt (drop i s) = None) \<Longrightarrow> afterLastMarker s = None"
proof (induction s)
  case Nil
  then show ?case by simp
next
  case (Cons c cs)
  have "afterLastMarker cs = None"
  proof (rule Cons.IH)
    fix i assume "i < length cs"
    then show "markerAt (drop i cs) = None" using Cons.prems[of "Suc i"] by simp
  qed
  moreover have "markerAt (c # cs) = None" using Cons.prems[of 0] by simp
  ultimately show ?case by simp
qed

lemma known_marker:
  assumes "m \<in> set [''youtu.be/'', ''v/'', ''embed/'', ''watch?v='', ''&v='']"
    and "afterLastMarker rest = None"
  shows "afterLastMarker (m @ rest) = Some rest"
  using assms
  by (auto simp: markerAt_def matchesYoutuBe_def matchesUser_def startsWith_def
        isLineTerminator_def)

text \<open>
  The shape \<^verbatim>\<open>u/\w/\<close>. When the word character is \<^verbatim>\<open>v\<close>, the marker
  \<^verbatim>\<open>v/\<close> matches further right and ends at the same place. When it is \<^verbatim>\<open>u\<close>,
  the same shape could match once more, two characters further right, if a slash stood
  at the second place behind the marker.
\<close>

lemma slash_no_marker: "markerAt (CHR ''/'' # s) = None"
  by (simp add: markerAt_def matchesYoutuBe_def matchesUser_def startsWith_def)

lemma user_marker:
  assumes w: "isWordChar w" and rest: "afterLastMarker rest = None"
    and slash: "2 \<le> length rest \<Longrightarrow> rest ! 1 \<noteq> CHR ''/''"
  shows "afterLastMarker (''u/'' @ [w] @ ''/'' @ rest) = Some rest"
proof -
  have nl: "\<not> isLineTerminator w"
    using w by (auto simp: isWordChar_def isLineTerminator_def Let_def)
  have 1: "afterLastMarker (CHR ''/'' # rest) = None"
    using rest by (simp add: slash_no_marker)
  have 2: "afterLastMarker (CHR ''/'' # w # CHR ''/'' # rest) = afterLastMarker (w # CHR ''/'' # rest)"
    by (simp add: slash_no_marker isLineTerminator_def split: option.splits)
  have 3: "markerAt (''u/'' @ [w] @ ''/'' @ rest) = Some 4"
    using w by (simp add: markerAt_def matchesYoutuBe_def matchesUser_def startsWith_def)
  have 4: "afterLastMarker (w # CHR ''/'' # rest) = Some rest \<or>
           afterLastMarker (w # CHR ''/'' # rest) = None"
  proof (cases "w = CHR ''v''")
    case True
    then show ?thesis
      using 1 by (simp add: markerAt_def matchesYoutuBe_def startsWith_def isLineTerminator_def)
  next
    case False
    have "\<not> matchesUser (w # CHR ''/'' # rest)"
      using slash by (cases rest; cases "tl rest") (auto simp: matchesUser_def startsWith_def)
    moreover have "w \<noteq> CHR ''&''"
      using w by (auto simp: isWordChar_def Let_def)
    ultimately have "markerAt (w # CHR ''/'' # rest) = None"
      using False by (simp add: markerAt_def matchesYoutuBe_def startsWith_def)
    then show ?thesis
      using 1 nl by simp
  qed
  show ?thesis
    using 2 3 4 by (auto simp: isLineTerminator_def)
qed

lemma token_exact:
  assumes "list_all (\<lambda>c. c \<notin> set ''#&?'') ident" and "suf = [] \<or> hd suf \<in> set ''#&?''"
  shows "takeWhile (\<lambda>c. c \<notin> set ''#&?'') (ident @ suf) = ident"
proof -
  have "takeWhile (\<lambda>c. c \<notin> set ''#&?'') suf = []"
    using assms(2) by (cases suf) auto
  moreover have "takeWhile (\<lambda>c. c \<notin> set ''#&?'') (ident @ suf) =
      ident @ takeWhile (\<lambda>c. c \<notin> set ''#&?'') suf"
    using assms(1) by (intro takeWhile_append2) (simp add: list_all_iff)
  ultimately show ?thesis by simp
qed

lemma getYouTubeId_known_shape:
  assumes "m \<in> set [''youtu.be/'', ''v/'', ''embed/'', ''watch?v='', ''&v=''] \<or>
           (\<exists>w. isWordChar w \<and> m = ''u/'' @ [w] @ ''/'' \<and> CHR ''/'' \<notin> set ident)"
    and "list_all (\<lambda>c. \<not> isLineTerminator c) pre"
    and "length ident = 11"
    and "list_all (\<lambda>c. c \<notin> set ''#&?'') ident"
    and "suf = [] \<or> hd suf \<in> set ''#&?''"
    and "afterLastMarker (ident @ suf) = None"
  shows "getYouTubeId (pre @ m @ ident @ suf) = Some ident"
proof -
  have "afterLastMarker (m @ ident @ suf) = Some (ident @ suf)"
    using assms(1)
  proof
    assume "m \<in> set [''youtu.be/'', ''v/'', ''embed/'', ''watch?v='', ''&v='']"
    then show ?thesis using assms(6) by (rule known_marker)
  next
    assume "\<exists>w. isWordChar w \<and> m = ''u/'' @ [w] @ ''/'' \<and> CHR ''/'' \<notin> set ident"
    then obtain w where w: "isWordChar w" and m: "m = ''u/'' @ [w] @ ''/''"
      and ns: "CHR ''/'' \<notin> set ident" by blast
    have "(ident @ suf) ! 1 = ident ! 1" "ident ! 1 \<in> set ident"
      using assms(3) by (simp_all add: nth_append)
    with ns have "(ident @ suf) ! 1 \<noteq> CHR ''/''" by metis
    with w assms(6) have "afterLastMarker (''u/'' @ [w] @ ''/'' @ (ident @ suf)) = Some (ident @ suf)"
      by (intro user_marker)
    then show ?thesis by (simp add: m)
  qed
  then have "afterLastMarker (pre @ m @ ident @ suf) = Some (ident @ suf)"
    using assms(2) by (rule afterLastMarker_prefix[rotated])
  moreover have "pre @ m @ ident @ suf \<noteq> []"
    using assms(3) by auto
  ultimately show ?thesis
    using assms(3) token_exact[OF assms(4,5)] by (simp add: getYouTubeId_def)
qed

lemma getYouTubeId_Some:
  assumes "getYouTubeId u = Some v"
  shows "length v = 11 \<and> list_all (\<lambda>c. c \<notin> set ''#&?'') v \<and>
         (\<exists>pre n rest. u = pre @ rest \<and> markerAt rest = Some n \<and>
            v = takeWhile (\<lambda>c. c \<notin> set ''#&?'') (drop n rest))"
proof -
  from assms obtain r where r: "afterLastMarker u = Some r"
    and v: "v = takeWhile (\<lambda>c. c \<notin> set ''#&?'') r" and len: "length v = 11"
    by (auto simp: getYouTubeId_def Let_def split: if_splits option.splits)
  from afterLastMarker_sound[OF r] v
  have "\<exists>pre n rest. u = pre @ rest \<and> markerAt rest = Some n \<and>
            v = takeWhile (\<lambda>c. c \<notin> set ''#&?'') (drop n rest)" by blast
  moreover have "list_all (\<lambda>c. c \<notin> set ''#&?'') v"
    unfolding v list_all_iff by (auto dest: set_takeWhileD)
  ultimately show ?thesis using len by blast
qed

lemma getYouTubeId_no_marker:
  "(\<And>i. i < length u \<Longrightarrow> markerAt (drop i u) = None) \<Longrightarrow> getYouTubeId u = None"
  by (simp add: getYouTubeId_def afterLastMarker_none)

lemma validate_needs_id: "validateYouTubeUrl h u = None \<Longrightarrow> getYouTubeId u \<noteq> None"
  by (auto simp: validateYouTubeUrl_def Let_def split: if_splits option.splits)

lemma handleAnalyze_invalid:
  assumes "inputMode st = ModeUrl" and "validateYouTubeUrl (hostnameOf e) (url st) = Some msg"
  shows "handleAnalyze e st = st\<lparr> error := Some msg \<rparr>"
  using assms by (simp add: handleAnalyze_def)

lemma mismatchCheck_raises:
  assumes "\<not> nullish result" and "truthy (getProp result ''videoId'')"
    and "\<not> strictEq (getProp result ''videoId'') (JStr vid)"
    and "\<not> strictEq (getProp result ''videoId'') (JStr ''NOT_FOUND'')"
  shows "mismatchCheck num (Some vid) result =
           (case toStr num (getProp result ''videoId'') of
              Inl err \<Rightarrow> Inl err
            | Inr s \<Rightarrow> Inl (Error (mismatchMessage s)))"
  using assms by (simp add: mismatchCheck_def)

lemma mismatchCheck_passes:
  assumes "\<not> nullish result"
    and "\<not> truthy (getProp result ''videoId'') \<or>
         strictEq (getProp result ''videoId'') (JStr vid) \<or>
         strictEq (getProp result ''videoId'') (JStr ''NOT_FOUND'')"
  shows "mismatchCheck num (Some vid) result = Inr result"
  using assms by (auto simp: mismatchCheck_def)

lemma mismatchCheck_no_request: "mismatchCheck num None r = Inr r"
  by (simp add: mismatchCheck_def)

lemma handleAnalyze_url:
  assumes "inputMode st = ModeUrl" and "validateYouTubeUrl (hostnameOf e) (url st) = None"
  shows "handleAnalyze e st =
     finishAnalysis e
       (thenE (respond e (AnalyzeUrlWithGrounding (url st) (videoTypeFilter st)))
              (mismatchCheck (numberToString e) (getYouTubeId (url st))))
       (st\<lparr> error := None, isLoading := True, data := None,
             loadingStep := ''Analyzing text & comparing with metadata...'',
             requests := requests st @ [AnalyzeUrlWithGrounding (url st) (videoTypeFilter st)] \<rparr>)"
  using assms by (simp add: handleAnalyze_def Let_def)

lemma finishAnalysis_error:
  "finishAnalysis e (Inl err) st = st\<lparr> error := Some (message err), isLoading := False \<rparr>"
  by (simp add: finishAnalysis_def)

lemma finishAnalysis_data:
  "data (finishAnalysis e (Inr r) st) = Some r"
  by (auto simp: finishAnalysis_def Let_def saveToHistory_def split: sum.splits)

text \<open>
  The service that this component calls has no sentinel check: a record whose identifier
  is "NOT_FOUND" passes the guard and is committed. The check of the service that asks
  the model directly would have raised an error with another text.
\<close>

lemma handleAnalyze_sentinel_unchecked:
  assumes "inputMode st = ModeUrl" and "validateYouTubeUrl (hostnameOf e) (url st) = None"
    and "respond e (AnalyzeUrlWithGrounding (url st) (videoTypeFilter st)) = Inr (JObj kvs)"
    and "getProp (JObj kvs) ''videoId'' = JStr ''NOT_FOUND''"
  shows "data (handleAnalyze e st) = Some (JObj kvs)"
proof -
  from assms(2) obtain vid where vid: "getYouTubeId (url st) = Some vid"
    using validate_needs_id by blast
  have "mismatchCheck (numberToString e) (Some vid) (JObj kvs) = Inr (JObj kvs)"
    using assms(4) by (intro mismatchCheck_passes) simp_all
  then show ?thesis
    unfolding handleAnalyze_url[OF assms(1,2)] assms(3) vid by (simp add: finishAnalysis_data)
qed

lemma notFoundCheck_sentinel:
  "getProp d ''videoId'' = JStr ''NOT_FOUND'' \<Longrightarrow>
   notFoundCheck title d = Inl (Error (notFoundMessage title)) \<and>
   notFoundMessage title \<noteq> mismatchMessage s"
  by (simp add: notFoundCheck_def notFoundMessage_def mismatchMessage_def)

section \<open>The contract of URL analysis\<close>

subsection \<open>Resolving the identifier\<close>

text \<open>
  C6. \<^verbatim>\<open>getYouTubeId\<close> resolves "https://youtu.be/dQw4w9WgXcQ" to "dQw4w9WgXcQ".
  In general, a URL made of a prefix on one line, a marker, eleven characters other than
  #, & and ?, and then nothing or something that begins with #, & or ?, resolves to
  those eleven characters, if no marker begins in or behind them. The markers are
  youtu.be/, v/, embed/, watch?v=, &v= and u/, a word character and a slash (for this
  last one the eleven characters must hold no slash). Whatever is returned has eleven
  characters and is the token behind a marker; else the result is null.
  "https://example.com/video" has no identifier, and a URL analysis of a URL without
  identifier ends with a validation message, without a service call, without entering
  the loading state and with data and history as they were.
\<close>

theorem getYouTubeId_contract:
  "getYouTubeId ''https://youtu.be/dQw4w9WgXcQ'' = Some ''dQw4w9WgXcQ'' \<and>
   ((m \<in> set [''youtu.be/'', ''v/'', ''embed/'', ''watch?v='', ''&v=''] \<or>
     (\<exists>w. isWordChar w \<and> m = ''u/'' @ [w] @ ''/'' \<and> CHR ''/'' \<notin> set ident)) \<and>
    list_all (\<lambda>c. \<not> isLineTerminator c) pre \<and> length ident = 11 \<and>
    list_all (\<lambda>c. c \<notin> set ''#&?'') ident \<and> (suf = [] \<or> hd suf \<in> set ''#&?'') \<and>
    afterLastMarker (ident @ suf) = None \<longrightarrow>
      getYouTubeId (pre @ m @ ident @ suf) = Some ident) \<and>
   (getYouTubeId u = Some v \<longrightarrow>
      length v = 11 \<and> list_all (\<lambda>c. c \<notin> set ''#&?'') v \<and>
      (\<exists>pre' n rest. u = pre' @ rest \<and> markerAt rest = Some n \<and>
         v = takeWhile (\<lambda>c. c \<notin> set ''#&?'') (drop n rest))) \<and>
   getYouTubeId ''https://example.com/video'' = None \<and>
   (inputMode st = ModeUrl \<and> getYouTubeId (url st) = None \<longrightarrow>
      error (handleAnalyze e st) \<noteq> None \<and> requests (handleAnalyze e st) = requests st \<and>
      isLoading (handleAnalyze e st) = isLoading st \<and> data (handleAnalyze e st) = data st \<and>
      history (handleAnalyze e st) = history st)"
proof (intro conjI impI)
  show "getYouTubeId ''https://youtu.be/dQw4w9WgXcQ'' = Some ''dQw4w9WgXcQ''"
    by code_simp
  show "getYouTubeId ''https://example.com/video'' = None"
    by code_simp
next
  assume "(m \<in> set [''youtu.be/'', ''v/'', ''embed/'', ''watch?v='', ''&v=''] \<or>
     (\<exists>w. isWordChar w \<and> m = ''u/'' @ [w] @ ''/'' \<and> CHR ''/'' \<notin> set ident)) \<and>
    list_all (\<lambda>c. \<not> isLineTerminator c) pre \<and> length ident = 11 \<and>
    list_all (\<lambda>c. c \<notin> set ''#&?'') ident \<and> (suf = [] \<or> hd suf \<in> set ''#&?'') \<and>
    afterLastMarker (ident @ suf) = None"
  then show "getYouTubeId (pre @ m @ ident @ suf) = Some ident"
    by (intro getYouTubeId_known_shape) blast+
next
  assume "getYouTubeId u = Some v"
  from getYouTubeId_Some[OF this]
  show "length v = 11" "list_all (\<lambda>c. c \<notin> set ''#&?'') v"
    "\<exists>pre' n rest. u = pre' @ rest \<and> markerAt rest = Some n \<and>
         v = takeWhile (\<lambda>c. c \<notin> set ''#&?'') (drop n rest)"
    by blast+
next
  assume a: "inputMode st = ModeUrl \<and> getYouTubeId (url st) = None"
  then obtain msg where "validateYouTubeUrl (hostnameOf e) (url st) = Some msg"
    using validate_needs_id[of "hostnameOf e" "url st"]
    by (cases "validateYouTubeUrl (hostnameOf e) (url st)") auto
  with a have "handleAnalyze e st = st\<lparr> error := Some msg \<rparr>"
    by (intro handleAnalyze_invalid) simp_all
  then show "error (handleAnalyze e st) \<noteq> None" "requests (handleAnalyze e st) = requests st"
    "isLoading (handleAnalyze e st) = isLoading st" "data (handleAnalyze e st) = data st"
    "history (handleAnalyze e st) = history st"
    by simp_all
qed

theorem getYouTubeId_contract_witness:
  "''watch?v='' \<in> set [''youtu.be/'', ''v/'', ''embed/'', ''watch?v='', ''&v=''] \<and>
   list_all (\<lambda>c. \<not> isLineTerminator c) ''https://www.youtube.com/'' \<and>
   length ''dQw4w9WgXcQ'' = 11 \<and> list_all (\<lambda>c. c \<notin> set ''#&?'') ''dQw4w9WgXcQ'' \<and>
   hd ''&t=10s'' \<in> set ''#&?'' \<and> afterLastMarker (''dQw4w9WgXcQ'' @ ''&t=10s'') = None \<and>
   getYouTubeId ''https://www.youtube.com/watch?v=dQw4w9WgXcQ&t=10s'' = Some ''dQw4w9WgXcQ'' \<and>
   isWordChar (CHR ''1'') \<and> CHR ''/'' \<notin> set ''dQw4w9WgXcQ'' \<and>
   list_all (\<lambda>c. \<not> isLineTerminator c) ''https://www.youtube.com/user/abc#p/'' \<and>
   afterLastMarker (''dQw4w9WgXcQ'' @ []) = None \<and>
   getYouTubeId ''https://www.youtube.com/user/abc#p/u/1/dQw4w9WgXcQ'' = Some ''dQw4w9WgXcQ'' \<and>
   getYouTubeId ''https://www.youtube.com/embed/dQw4w9WgXcQ'' = Some ''dQw4w9WgXcQ'' \<and>
   inputMode (exampleUrlApp ''https://example.com/video'') = ModeUrl \<and>
   getYouTubeId (url (exampleUrlApp ''https://example.com/video'')) = None \<and>
   exampleHostname ''https://example.com/video'' = Some ''example.com'' \<and>
   error (handleAnalyze (exampleEnv JNull 0) (exampleUrlApp ''https://example.com/video'')) =
     Some ''Please provide a valid YouTube URL (youtube.com or youtu.be).'' \<and>
   requests (handleAnalyze (exampleEnv JNull 0) (exampleUrlApp ''https://example.com/video'')) = [] \<and>
   data (handleAnalyze (exampleEnv JNull 0) (exampleUrlApp ''https://example.com/video'')) = None"
proof -
  have 1: "(''watch?v='' \<in> set [''youtu.be/'', ''v/'', ''embed/'', ''watch?v='', ''&v='']) \<and>
    list_all (\<lambda>c. \<not> isLineTerminator c) ''https://www.youtube.com/'' \<and>
    length ''dQw4w9WgXcQ'' = 11 \<and> list_all (\<lambda>c. c \<notin> set ''#&?'') ''dQw4w9WgXcQ'' \<and>
    hd ''&t=10s'' \<in> set ''#&?'' \<and>
    afterLastMarker (''dQw4w9WgXcQ'' @ ''&t=10s'') = None"
    by code_simp
  have 2: "isWordChar (CHR ''1'') \<and> CHR ''/'' \<notin> set ''dQw4w9WgXcQ'' \<and>
    list_all (\<lambda>c. \<not> isLineTerminator c) ''https://www.youtube.com/user/abc#p/'' \<and>
    afterLastMarker (''dQw4w9WgXcQ'' @ []) = None"
    by code_simp
  have 3: "\<exists>w. isWordChar w \<and> ''u/1/'' = ''u/'' @ [w] @ ''/'' \<and> CHR ''/'' \<notin> set ''dQw4w9WgXcQ''"
    using 2 by (intro exI[of _ "CHR ''1''"]) simp
  have 4: "getYouTubeId ''https://www.youtube.com/embed/dQw4w9WgXcQ'' = Some ''dQw4w9WgXcQ''"
    by code_simp
  have 5: "inputMode (exampleUrlApp ''https://example.com/video'') = ModeUrl \<and>
    getYouTubeId (url (exampleUrlApp ''https://example.com/video'')) = None \<and>
    exampleHostname ''https://example.com/video'' = Some ''example.com''"
    by code_simp
  have 6: "error (handleAnalyze (exampleEnv JNull 0) (exampleUrlApp ''https://example.com/video'')) =
     Some ''Please provide a valid YouTube URL (youtube.com or youtu.be).''"
    by code_simp
  have 7: "requests (exampleUrlApp ''https://example.com/video'') = []"
    "data (exampleUrlApp ''https://example.com/video'') = None"
    by code_simp+
  have 8: "getYouTubeId ''https://www.youtube.com/user/abc#p/u/1/dQw4w9WgXcQ'' = Some ''dQw4w9WgXcQ''"
    "getYouTubeId ''https://www.youtube.com/watch?v=dQw4w9WgXcQ&t=10s'' = Some ''dQw4w9WgXcQ''"
    by code_simp+
  show ?thesis
    using 1 2 3 4 5 6 7 8
      getYouTubeId_contract[where m = "''watch?v=''" and pre = "''https://www.youtube.com/''"
        and ident = "''dQw4w9WgXcQ''" and suf = "''&t=10s''"
        and u = "''https://www.youtube.com/embed/dQw4w9WgXcQ''" and v = "''dQw4w9WgXcQ''"
        and st = "exampleUrlApp ''https://example.com/video''" and e = "exampleEnv JNull 0"]
      getYouTubeId_contract[where m = "''u/1/''" and pre = "''https://www.youtube.com/user/abc#p/''"
        and ident = "''dQw4w9WgXcQ''" and suf = "[]"]
    by simp
qed

subsection \<open>The identity guard\<close>

text \<open>
  The message of the mismatch error holds the identifier of the record and not the
  requested one.
\<close>

theorem mismatch_message_counterexample:
  "mismatchCheck (\<lambda>n. []) (Some ''dQw4w9WgXcQ'') (JObj [(''videoId'', JStr ''AAAAAAAAAAA'')]) =
     Inl (Error ''Analysis Mismatch: The AI analyzed a different video (ID: AAAAAAAAAAA).'') \<and>
   \<not> strIncludes ''Analysis Mismatch: The AI analyzed a different video (ID: AAAAAAAAAAA).''
        ''dQw4w9WgXcQ''"
  by code_simp

text \<open>
  C3 (as amended). Take a URL analysis whose URL passed the validation (so the
  requested identifier \<open>vid\<close> was resolved) and whose service returned a record,
  \<open>rid\<close> being the record's identifier. If \<open>rid\<close> is truthy, differs from \<open>vid\<close>
  and is not "NOT_FOUND", the analysis ends with an error, no data is committed and
  history and storage are unchanged; the error is the mismatch error, whose message
  carries the text of \<open>rid\<close> (\<open>rid\<close> itself when it is a string) and nothing of
  \<open>vid\<close>. If \<open>rid\<close> is "NOT_FOUND", the guard raises no mismatch error. If
  \<open>rid\<close> is absent (falsy) or equal to \<open>vid\<close>, the record is committed. Without a
  requested identifier the guard checks nothing.
\<close>

theorem identity_guard:
  assumes "inputMode st = ModeUrl"
    and "validateYouTubeUrl (hostnameOf e) (url st) = None"
    and "respond e (AnalyzeUrlWithGrounding (url st) (videoTypeFilter st)) = Inr result"
    and "\<not> nullish result"
    and "rid = getProp result ''videoId''"
  shows
  "\<exists>vid. getYouTubeId (url st) = Some vid \<and>
     (truthy rid \<and> \<not> strictEq rid (JStr vid) \<and> \<not> strictEq rid (JStr ''NOT_FOUND'') \<longrightarrow>
        error (handleAnalyze e st) \<noteq> None \<and>
        data (handleAnalyze e st) = None \<and> history (handleAnalyze e st) = history st \<and>
        storage (handleAnalyze e st) = storage st \<and>
        (\<forall>s. rid = JStr s \<or> toStr (numberToString e) rid = Inr s \<longrightarrow>
           error (handleAnalyze e st) =
             Some (''Analysis Mismatch: The AI analyzed a different video (ID: '' @ s @ '').''))) \<and>
     (strictEq rid (JStr ''NOT_FOUND'') \<longrightarrow>
        mismatchCheck (numberToString e) (Some vid) result = Inr result) \<and>
     (\<not> truthy rid \<or> strictEq rid (JStr vid) \<longrightarrow> data (handleAnalyze e st) = Some result) \<and>
     mismatchCheck (numberToString e) None result = Inr result"
proof -
  from assms(2) obtain vid where vid: "getYouTubeId (url st) = Some vid"
    using validate_needs_id by blast
  note run = handleAnalyze_url[OF assms(1,2), unfolded assms(3) vid]
  have a: "error (handleAnalyze e st) \<noteq> None \<and>
        data (handleAnalyze e st) = None \<and> history (handleAnalyze e st) = history st \<and>
        storage (handleAnalyze e st) = storage st \<and>
        (\<forall>s. rid = JStr s \<or> toStr (numberToString e) rid = Inr s \<longrightarrow>
           error (handleAnalyze e st) =
             Some (''Analysis Mismatch: The AI analyzed a different video (ID: '' @ s @ '').''))"
    if h: "truthy rid \<and> \<not> strictEq rid (JStr vid) \<and> \<not> strictEq rid (JStr ''NOT_FOUND'')"
  proof -
    have m: "mismatchCheck (numberToString e) (Some vid) result =
           (case toStr (numberToString e) rid of
              Inl err \<Rightarrow> Inl err
            | Inr s \<Rightarrow> Inl (Error (mismatchMessage s)))"
      using h assms(4) unfolding assms(5) by (intro mismatchCheck_raises) simp_all
    show ?thesis
    proof (cases "toStr (numberToString e) rid")
      case (Inl err)
      then have "\<And>s. rid \<noteq> JStr s" by auto
      with Inl show ?thesis
        unfolding run by (simp add: m finishAnalysis_error)
    next
      case (Inr s)
      then have "\<And>s'. rid = JStr s' \<Longrightarrow> s' = s" by auto
      with Inr show ?thesis
        unfolding run by (auto simp: m finishAnalysis_error mismatchMessage_def)
    qed
  qed
  have b: "strictEq rid (JStr ''NOT_FOUND'') \<longrightarrow>
        mismatchCheck (numberToString e) (Some vid) result = Inr result"
    using assms(4) unfolding assms(5) by (auto intro: mismatchCheck_passes)
  have c: "\<not> truthy rid \<or> strictEq rid (JStr vid) \<longrightarrow> data (handleAnalyze e st) = Some result"
  proof
    assume h: "\<not> truthy rid \<or> strictEq rid (JStr vid)"
    then have "mismatchCheck (numberToString e) (Some vid) result = Inr result"
      using assms(4) unfolding assms(5) by (intro mismatchCheck_passes) blast+
    then show "data (handleAnalyze e st) = Some result"
      unfolding run by (simp add: finishAnalysis_data)
  qed
  show ?thesis
  proof (intro exI[of _ vid] conjI)
    show "getYouTubeId (url st) = Some vid" by (rule vid)
    show "truthy rid \<and> \<not> strictEq rid (JStr vid) \<and> \<not> strictEq rid (JStr ''NOT_FOUND'') \<longrightarrow>
        error (handleAnalyze e st) \<noteq> None \<and>
        data (handleAnalyze e st) = None \<and> history (handleAnalyze e st) = history st \<and>
        storage (handleAnalyze e st) = storage st \<and>
        (\<forall>s. rid = JStr s \<or> toStr (numberToString e) rid = Inr s \<longrightarrow>
           error (handleAnalyze e st) =
             Some (''Analysis Mismatch: The AI analyzed a different video (ID: '' @ s @ '').''))"
      using a by blast
    show "strictEq rid (JStr ''NOT_FOUND'') \<longrightarrow>
        mismatchCheck (numberToString e) (Some vid) result = Inr result"
      by (rule b)
    show "\<not> truthy rid \<or> strictEq rid (JStr vid) \<longrightarrow> data (handleAnalyze e st) = Some result"
      by (rule c)
    show "mismatchCheck (numberToString e) None result = Inr result"
      by (rule mismatchCheck_no_request)
  qed
qed

theorem identity_guard_witness:
  "inputMode (exampleUrlApp ''https://youtu.be/dQw4w9WgXcQ'') = ModeUrl \<and>
   validateYouTubeUrl exampleHostname ''https://youtu.be/dQw4w9WgXcQ'' = None \<and>
   getYouTubeId ''https://youtu.be/dQw4w9WgXcQ'' = Some ''dQw4w9WgXcQ'' \<and>
   respond (exampleEnv (JObj [(''videoId'', JStr ''AAAAAAAAAAA'')]) 7)
       (AnalyzeUrlWithGrounding ''https://youtu.be/dQw4w9WgXcQ'' ''Auto'') =
     Inr (JObj [(''videoId'', JStr ''AAAAAAAAAAA''), (''videoType'', JStr ''General''),
                (''timestamps'', JArr []), (''themes'', JArr []), (''studyNotes'', JArr []),
                (''quotes'', JArr []), (''speakers'', JArr []), (''subTopics'', JArr []),
                (''reviewDetails'', JUndefined)]) \<and>
   error (handleAnalyze (exampleEnv (JObj [(''videoId'', JStr ''AAAAAAAAAAA'')]) 7)
            (exampleUrlApp ''https://youtu.be/dQw4w9WgXcQ'')) =
     Some ''Analysis Mismatch: The AI analyzed a different video (ID: AAAAAAAAAAA).'' \<and>
   data (handleAnalyze (exampleEnv (JObj [(''videoId'', JStr ''AAAAAAAAAAA'')]) 7)
            (exampleUrlApp ''https://youtu.be/dQw4w9WgXcQ'')) = None \<and>
   history (handleAnalyze (exampleEnv (JObj [(''videoId'', JStr ''AAAAAAAAAAA'')]) 7)
            (exampleUrlApp ''https://youtu.be/dQw4w9WgXcQ'')) = [] \<and>
   data (handleAnalyze (exampleEnv (JObj [(''videoId'', JStr ''dQw4w9WgXcQ'')]) 7)
            (exampleUrlApp ''https://youtu.be/dQw4w9WgXcQ'')) =
     Some (JObj [(''videoId'', JStr ''dQw4w9WgXcQ''), (''videoType'', JStr ''General''),
                 (''timestamps'', JArr []), (''themes'', JArr []), (''studyNotes'', JArr []),
                 (''quotes'', JArr []), (''speakers'', JArr []), (''subTopics'', JArr []),
                 (''reviewDetails'', JUndefined)]) \<and>
   data (handleAnalyze (exampleEnv (JObj [(''title'', JStr ''X'')]) 7)
            (exampleUrlApp ''https://youtu.be/dQw4w9WgXcQ'')) =
     Some (JObj [(''title'', JStr ''X''), (''videoType'', JStr ''General''),
                 (''timestamps'', JArr []), (''themes'', JArr []), (''studyNotes'', JArr []),
                 (''quotes'', JArr []), (''speakers'', JArr []), (''subTopics'', JArr []),
                 (''reviewDetails'', JUndefined)])"
proof -
  let ?st = "exampleUrlApp ''https://youtu.be/dQw4w9WgXcQ''"
  let ?rest = "[(''videoType'', JStr ''General''),
                 (''timestamps'', JArr []), (''themes'', JArr []), (''studyNotes'', JArr []),
                 (''quotes'', JArr []), (''speakers'', JArr []), (''subTopics'', JArr []),
                 (''reviewDetails'', JUndefined)]"
  have 1: "inputMode ?st = ModeUrl"
    by code_simp
  have 2: "validateYouTubeUrl exampleHostname ''https://youtu.be/dQw4w9WgXcQ'' = None"
    by code_simp
  have 3: "getYouTubeId ''https://youtu.be/dQw4w9WgXcQ'' = Some ''dQw4w9WgXcQ''"
    by code_simp
  have 4: "url ?st = ''https://youtu.be/dQw4w9WgXcQ''" "videoTypeFilter ?st = ''Auto''"
    "history ?st = []"
    by code_simp+
  have 5: "hostnameOf (exampleEnv answer t) = exampleHostname"
    "respond (exampleEnv answer t) r = sanitizeData answer" for answer t r
    by (simp_all add: exampleEnv_def)
  have v: "validateYouTubeUrl (hostnameOf (exampleEnv answer t)) (url ?st) = None" for answer t
    using 2 4 5 by simp
  have a: "sanitizeData (JObj [(''videoId'', JStr ''AAAAAAAAAAA'')]) =
      Inr (JObj ((''videoId'', JStr ''AAAAAAAAAAA'') # ?rest))"
    by code_simp
  have b: "sanitizeData (JObj [(''videoId'', JStr ''dQw4w9WgXcQ'')]) =
      Inr (JObj ((''videoId'', JStr ''dQw4w9WgXcQ'') # ?rest))"
    by code_simp
  have c: "sanitizeData (JObj [(''title'', JStr ''X'')]) = Inr (JObj ((''title'', JStr ''X'') # ?rest))"
    by code_simp
  have n: "\<not> nullish (JObj kvs)" for kvs
    by simp
  show ?thesis
    using 1 2 3 4 a
      identity_guard[where e = "exampleEnv (JObj [(''videoId'', JStr ''AAAAAAAAAAA'')]) 7"
        and st = ?st, OF 1 v trans[OF 5(2) a] n refl]
      identity_guard[where e = "exampleEnv (JObj [(''videoId'', JStr ''dQw4w9WgXcQ'')]) 7"
        and st = ?st, OF 1 v trans[OF 5(2) b] n refl]
      identity_guard[where e = "exampleEnv (JObj [(''title'', JStr ''X'')]) 7"
        and st = ?st, OF 1 v trans[OF 5(2) c] n refl]
    by (simp add: 5)
qed

section \<open>The contract of the chat\<close>

lemma inFlight_appendMessage [simp]: "inFlight (appendMessage c m st) = inFlight st"
  and chatIsLoading_appendMessage [simp]: "chatIsLoading (appendMessage c m st) = chatIsLoading st"
  and activeContext_appendMessage [simp]: "activeContext (appendMessage c m st) = activeContext st"
  by (simp_all add: appendMessage_def)

lemma messages_appendMessage:
  "videoMessages (appendMessage c m st) = videoMessages st @ (if c = Video then [m] else [])"
  "researchMessages (appendMessage c m st) = researchMessages st @ (if c = Research then [m] else [])"
  by (cases c; simp add: appendMessage_def)+

lemma chatInv_step: "chatInv st \<Longrightarrow> chatInv (chatStep ev st)"
proof (cases ev)
  case (Send textInput now later)
  assume "chatInv st"
  then show ?thesis
    unfolding Send by (auto simp: chatInv_def handleSend_def Let_def)
next
  case (Settle i answer now)
  assume "chatInv st"
  then show ?thesis
    unfolding Settle by (cases "inFlight st") (auto simp: chatInv_def settle_def)
next
  case (SetContext c)
  assume "chatInv st"
  then show ?thesis
    unfolding SetContext by (simp add: chatInv_def)
qed

lemma chatInv_run: "chatInv st \<Longrightarrow> chatInv (chatRun evs st)"
  by (induction evs arbitrary: st) (simp_all add: chatInv_step)

lemma step_appends:
  "\<exists>vs rs. videoMessages (chatStep ev st) = videoMessages st @ vs \<and>
           researchMessages (chatStep ev st) = researchMessages st @ rs"
  by (cases ev) (auto simp: handleSend_def settle_def Let_def messages_appendMessage)

lemma run_appends:
  "\<exists>vs rs. videoMessages (chatRun evs st) = videoMessages st @ vs \<and>
           researchMessages (chatRun evs st) = researchMessages st @ rs"
proof (induction evs arbitrary: st)
  case Nil
  then show ?case by simp
next
  case (Cons ev evs)
  from step_appends[of ev st] obtain vs rs where
    1: "videoMessages (chatStep ev st) = videoMessages st @ vs"
       "researchMessages (chatStep ev st) = researchMessages st @ rs" by blast
  from Cons.IH[of "chatStep ev st"] obtain vs' rs' where
    2: "videoMessages (chatRun evs (chatStep ev st)) = videoMessages (chatStep ev st) @ vs'"
       "researchMessages (chatRun evs (chatStep ev st)) = researchMessages (chatStep ev st) @ rs'"
    by blast
  from 1 2 have "videoMessages (chatRun (ev # evs) st) = videoMessages st @ (vs @ vs') \<and>
    researchMessages (chatRun (ev # evs) st) = researchMessages st @ (rs @ rs')" by simp
  then show ?case by blast
qed

lemma handleSend_rejected: "chatIsLoading st \<Longrightarrow> handleSend t now later st = st"
  by (simp add: handleSend_def)

lemma handleSend_accepted:
  assumes "\<not> chatIsLoading st" and "t \<noteq> []" and "trim t \<noteq> []"
  shows "videoMessages (handleSend (Some t) now later st) =
           videoMessages st @
             (if activeContext st = Video then [\<lparr> role = User, content = t, timestamp = now \<rparr>] else [])"
    and "activeContext st = Video \<or> researchData st \<Longrightarrow>
         researchMessages (handleSend (Some t) now later st) =
           researchMessages st @
             (if activeContext st = Research then [\<lparr> role = User, content = t, timestamp = now \<rparr>] else [])"
    and "activeContext st = Video \<or> researchData st \<Longrightarrow>
         inFlight (handleSend (Some t) now later st) = inFlight st @ [activeContext st]"
  using assms by (auto simp: handleSend_def Let_def messages_appendMessage)




section \<open>The contract of the history store\<close>

subsection \<open>Saving\<close>

text \<open>
  C4. \<^verbatim>\<open>saveToHistory\<close> keys the new item as the claim says and puts it first, but
  the list it filters and prepends to is the history that the memoized
  \<^verbatim>\<open>handleAnalyze\<close> saw when an input last changed, not the current one
  (\<^verbatim>\<open>history\<close> is missing from the dependencies of \<^verbatim>\<open>useCallback\<close>). In the
  session \<open>exampleSession\<close> the stored history holds the video \<open>a\<close> and one
  transcript is analyzed three times, at the times 1, 2 and 3, the answers carrying no
  video identifier. All three analyses call the service and save. The history is then
  1, a; then 2, a; then 3, a: each save drops the one before, where prepending to the
  existing history gives 3, 2, 1, a. That is the history when the transcript is edited
  before each further analysis.
\<close>

theorem saveToHistory_stale_history:
  "map itemId (history (loadHistory exampleParse (initialApp (Some exampleStored)))) = [JStr ''a''] \<and>
   map itemId (history (appRun (take 3 exampleSession)
      (loadHistory exampleParse (initialApp (Some exampleStored))))) = [JStr ''1'', JStr ''a''] \<and>
   map itemId (history (appRun (take 4 exampleSession)
      (loadHistory exampleParse (initialApp (Some exampleStored))))) = [JStr ''2'', JStr ''a''] \<and>
   map itemId (history (appRun exampleSession
      (loadHistory exampleParse (initialApp (Some exampleStored))))) = [JStr ''3'', JStr ''a''] \<and>
   length (requests (appRun exampleSession
      (loadHistory exampleParse (initialApp (Some exampleStored))))) = 3 \<and>
   map itemId (history (appRun exampleEditedSession
      (loadHistory exampleParse (initialApp (Some exampleStored))))) =
     [JStr ''3'', JStr ''2'', JStr ''1'', JStr ''a'']"
  by code_simp

subsection \<open>Loading\<close>

text \<open>
  C5. The load effect at startup never sets an error. When the stored text is not
  empty and \<^verbatim>\<open>JSON.parse\<close> throws on it or returns something that is no array, the
  history stays empty and the entry is removed from the storage. When it returns an
  array, either every element is loaded as its copy with \<^verbatim>\<open>data\<close> replaced by
  \<^verbatim>\<open>sanitizeData(item.data)\<close> and the storage is kept, or (an element is undefined or
  null, or the sanitizer throws) the history stays empty and the entry is removed.
  With no entry or an empty one nothing happens.
\<close>

theorem loadHistory_startup:
  assumes "st = loadHistory parse (initialApp saved)"
  shows
  "error st = None \<and>
   (saved = Some s \<and> s \<noteq> [] \<and> parse s = None \<longrightarrow> history st = [] \<and> storage st = None) \<and>
   (saved = Some s \<and> s \<noteq> [] \<and> parse s = Some v \<and> \<not> isArray v \<longrightarrow>
      history st = [] \<and> storage st = None) \<and>
   (saved = Some s \<and> s \<noteq> [] \<and> parse s = Some (JArr items) \<longrightarrow>
      (storage st = saved \<and>
       list_all2 (\<lambda>item h. \<not> nullish item \<and>
           (\<exists>d. sanitizeData (getProp item ''data'') = Inr d \<and> h = setProp ''data'' d (spread item)))
         items (history st)) \<or>
      (history st = [] \<and> storage st = None)) \<and>
   ((saved = None \<or> saved = Some []) \<longrightarrow> st = initialApp saved)"
  unfolding assms
  by (auto simp: loadHistory_def initialApp_def split: option.splits sum.splits
           dest: loadItem_all)

theorem loadHistory_startup_witness:
  "exampleParse ''not json'' = None \<and>
   history (loadHistory exampleParse (initialApp (Some ''not json''))) = [] \<and>
   storage (loadHistory exampleParse (initialApp (Some ''not json''))) = None \<and>
   exampleParse ''{}'' = Some (JObj []) \<and> \<not> isArray (JObj []) \<and>
   history (loadHistory exampleParse (initialApp (Some ''{}''))) = [] \<and>
   storage (loadHistory exampleParse (initialApp (Some ''{}''))) = None \<and>
   exampleParse ''[{\"id\":\"a\",\"data\":{\"title\":\"T\"}}]'' =
     Some (JArr [JObj [(''id'', JStr ''a''), (''data'', JObj [(''title'', JStr ''T'')])]]) \<and>
   history (loadHistory exampleParse
              (initialApp (Some ''[{\"id\":\"a\",\"data\":{\"title\":\"T\"}}]''))) =
     [[(''id'', JStr ''a''),
       (''data'', JObj [(''title'', JStr ''T''), (''videoType'', JStr ''General''),
                        (''timestamps'', JArr []), (''themes'', JArr []), (''studyNotes'', JArr []),
                        (''quotes'', JArr []), (''speakers'', JArr []), (''subTopics'', JArr []),
                        (''reviewDetails'', JUndefined)])]] \<and>
   storage (loadHistory exampleParse
              (initialApp (Some ''[{\"id\":\"a\",\"data\":{\"title\":\"T\"}}]''))) =
     Some ''[{\"id\":\"a\",\"data\":{\"title\":\"T\"}}]'' \<and>
   loadHistory exampleParse (initialApp None) = initialApp None"
proof -
  have 1: "exampleParse ''not json'' = None"
    by code_simp
  have 2: "exampleParse ''{}'' = Some (JObj [])"
    by code_simp
  have 3: "exampleParse ''[{\"id\":\"a\",\"data\":{\"title\":\"T\"}}]'' =
     Some (JArr [JObj [(''id'', JStr ''a''), (''data'', JObj [(''title'', JStr ''T'')])]])"
    by code_simp
  have 4: "history (loadHistory exampleParse
              (initialApp (Some ''[{\"id\":\"a\",\"data\":{\"title\":\"T\"}}]''))) =
     [[(''id'', JStr ''a''),
       (''data'', JObj [(''title'', JStr ''T''), (''videoType'', JStr ''General''),
                        (''timestamps'', JArr []), (''themes'', JArr []), (''studyNotes'', JArr []),
                        (''quotes'', JArr []), (''speakers'', JArr []), (''subTopics'', JArr []),
                        (''reviewDetails'', JUndefined)])]]"
    by code_simp
  have 5: "storage (loadHistory exampleParse
              (initialApp (Some ''[{\"id\":\"a\",\"data\":{\"title\":\"T\"}}]''))) =
     Some ''[{\"id\":\"a\",\"data\":{\"title\":\"T\"}}]''"
    by code_simp
  show ?thesis
    using 1 2 3 4 5
      loadHistory_startup[OF refl, where saved = "Some ''not json''" and s = "''not json''"
        and parse = exampleParse]
      loadHistory_startup[OF refl, where saved = "Some ''{}''" and s = "''{}''"
        and parse = exampleParse and v = "JObj []"]
      loadHistory_startup[OF refl, where saved = "Some ''[{\"id\":\"a\",\"data\":{\"title\":\"T\"}}]''"
        and s = "''[{\"id\":\"a\",\"data\":{\"title\":\"T\"}}]''" and parse = exampleParse
        and items = "[JObj [(''id'', JStr ''a''), (''data'', JObj [(''title'', JStr ''T'')])]]"]
      loadHistory_startup[OF refl, where saved = None and parse = exampleParse]
    by simp
qed

section \<open>The sanitizer's contract\<close>

subsection \<open>Sequence fields\<close>

lemma ensureArray_cases:
  "JArr (ensureArray v) = (case v of JArr xs \<Rightarrow> JArr xs | _ \<Rightarrow> JArr [])"
  by (cases v) simp_all

lemma sections_nth:
  "mapE sanitizeSection ss = Inr secs \<Longrightarrow> i < length ss \<Longrightarrow>
   secs ! i =
     JObj (setProp ''points''
             (case getProp (ss ! i) ''points'' of JArr ps \<Rightarrow> JArr ps | _ \<Rightarrow> JArr [])
             (spread (ss ! i)))"
proof (induction ss arbitrary: secs i)
  case Nil
  then show ?case by simp
next
  case (Cons s ss)
  from Cons.prems(1) obtain t ts where t: "sanitizeSection s = Inr t"
    and ts: "mapE sanitizeSection ss = Inr ts" and secs: "secs = t # ts"
    by (auto split: sum.splits)
  show ?case
  proof (cases i)
    case 0
    with t secs show ?thesis
      by (auto simp: sanitizeSection_def ensureArray_cases split: if_splits)
  next
    case (Suc j)
    with Cons.prems(2) Cons.IH[OF ts, of j] secs show ?thesis by simp
  qed
qed

text \<open>
  For the input \<^verbatim>\<open>null\<close> the guard \<^verbatim>\<open>if (!data) return {}\<close> answers with the
  empty object: its sequence fields are undefined, not arrays.
\<close>

theorem sanitizeData_null_counterexample:
  "sanitizeData JNull = Inr (JObj []) \<and>
   getProp (JObj []) ''timestamps'' = JUndefined \<and> \<not> isArray (getProp (JObj []) ''timestamps'')"
  by (simp add: sanitizeData_def)

text \<open>
  C2 (as amended). A falsy input (null, undefined, false, 0, the empty string) is
  answered with the empty object. For a truthy input whose study notes, when they are
  an array, hold no undefined or null section, \<^verbatim>\<open>sanitizeData\<close> returns a record in
  which every sequence field is an array: timestamps, themes, quotes, speakers and
  subTopics are the input's array when the input value was one and the empty array
  otherwise; studyNotes is the empty array when the input's value was no array, and
  otherwise has one section for each section of the input, in the same order, which is
  that section with its points replaced by the empty array when they were no array.
\<close>

theorem sanitizeData_sequences:
  "(\<not> truthy x \<longrightarrow> sanitizeData x = Inr (JObj [])) \<and>
   (truthy x \<and> (\<forall>ss. getProp x ''studyNotes'' = JArr ss \<longrightarrow> list_all (\<lambda>s. \<not> nullish s) ss) \<longrightarrow>
      (\<exists>r. sanitizeData x = Inr r \<and>
         (\<forall>k \<in> set [''timestamps'', ''themes'', ''quotes'', ''speakers'', ''subTopics''].
            getProp r k = (case getProp x k of JArr xs \<Rightarrow> JArr xs | _ \<Rightarrow> JArr [])) \<and>
         (case getProp x ''studyNotes'' of
            JArr ss \<Rightarrow>
              (\<exists>secs. getProp r ''studyNotes'' = JArr secs \<and> length secs = length ss \<and>
                 (\<forall>i < length ss.
                    secs ! i =
                      JObj (setProp ''points''
                              (case getProp (ss ! i) ''points'' of
                                 JArr ps \<Rightarrow> JArr ps
                               | _ \<Rightarrow> JArr [])
                              (spread (ss ! i)))))
          | _ \<Rightarrow> getProp r ''studyNotes'' = JArr [])))"
proof (intro conjI impI)
  assume "\<not> truthy x"
  then show "sanitizeData x = Inr (JObj [])" by (rule sanitizeData_falsy)
next
  assume a: "truthy x \<and>
    (\<forall>ss. getProp x ''studyNotes'' = JArr ss \<longrightarrow> list_all (\<lambda>s. \<not> nullish s) ss)"
  then have "list_all (\<lambda>s. \<not> nullish s) (ensureArray (getProp x ''studyNotes''))"
    by (cases "getProp x ''studyNotes''") simp_all
  with a obtain r where r: "sanitizeData x = Inr r"
    using sanitizeData_returns by blast
  with a obtain secs where
    secs: "mapE sanitizeSection (ensureArray (getProp x ''studyNotes'')) = Inr secs" and
    r_eq: "r = JObj (assignProps (sanitizedFields x secs) (spread x))"
    by (auto elim: sanitizeData_Inr)
  have 1: "\<forall>k \<in> set [''timestamps'', ''themes'', ''quotes'', ''speakers'', ''subTopics''].
            getProp r k = (case getProp x k of JArr xs \<Rightarrow> JArr xs | _ \<Rightarrow> JArr [])"
    unfolding r_eq by (simp add: getProp_sanitized ensureArray_cases del: getProp.simps)
  have 2: "getProp r ''studyNotes'' = JArr secs"
    unfolding r_eq by (simp add: getProp_sanitized del: getProp.simps)
  have 3: "case getProp x ''studyNotes'' of
            JArr ss \<Rightarrow>
              (\<exists>secs. getProp r ''studyNotes'' = JArr secs \<and> length secs = length ss \<and>
                 (\<forall>i < length ss.
                    secs ! i =
                      JObj (setProp ''points''
                              (case getProp (ss ! i) ''points'' of
                                 JArr ps \<Rightarrow> JArr ps
                               | _ \<Rightarrow> JArr [])
                              (spread (ss ! i)))))
          | _ \<Rightarrow> getProp r ''studyNotes'' = JArr []"
  proof (cases "getProp x ''studyNotes''")
    case (JArr ss)
    with secs have m: "mapE sanitizeSection ss = Inr secs" by simp
    have "length secs = length ss" using m by (rule mapE_length)
    moreover have "\<forall>i < length ss.
                    secs ! i =
                      JObj (setProp ''points''
                              (case getProp (ss ! i) ''points'' of
                                 JArr ps \<Rightarrow> JArr ps
                               | _ \<Rightarrow> JArr [])
                              (spread (ss ! i)))"
      using sections_nth[OF m] by blast
    ultimately show ?thesis using 2 JArr by simp
  qed (use secs 2 in auto)
  from r 1 3 show "\<exists>r. sanitizeData x = Inr r \<and>
         (\<forall>k \<in> set [''timestamps'', ''themes'', ''quotes'', ''speakers'', ''subTopics''].
            getProp r k = (case getProp x k of JArr xs \<Rightarrow> JArr xs | _ \<Rightarrow> JArr [])) \<and>
         (case getProp x ''studyNotes'' of
            JArr ss \<Rightarrow>
              (\<exists>secs. getProp r ''studyNotes'' = JArr secs \<and> length secs = length ss \<and>
                 (\<forall>i < length ss.
                    secs ! i =
                      JObj (setProp ''points''
                              (case getProp (ss ! i) ''points'' of
                                 JArr ps \<Rightarrow> JArr ps
                               | _ \<Rightarrow> JArr [])
                              (spread (ss ! i)))))
          | _ \<Rightarrow> getProp r ''studyNotes'' = JArr [])"
    by blast
qed

theorem sanitizeData_sequences_witness:
  "\<not> truthy JNull \<and> sanitizeData JNull = Inr (JObj []) \<and>
   truthy (JObj [(''title'', JStr ''X''), (''themes'', JArr [JStr ''a'', JStr ''b'']),
                 (''quotes'', JNull),
                 (''studyNotes'',
                    JArr [JObj [(''title'', JStr ''S''), (''points'', JArr [JStr ''p''])],
                          JObj [(''title'', JStr ''T''), (''points'', JStr ''q'')]])]) \<and>
   sanitizeData (JObj [(''title'', JStr ''X''), (''themes'', JArr [JStr ''a'', JStr ''b'']),
                       (''quotes'', JNull),
                       (''studyNotes'',
                          JArr [JObj [(''title'', JStr ''S''), (''points'', JArr [JStr ''p''])],
                                JObj [(''title'', JStr ''T''), (''points'', JStr ''q'')]])]) =
     Inr (JObj [(''title'', JStr ''X''), (''themes'', JArr [JStr ''a'', JStr ''b'']),
                (''quotes'', JArr []),
                (''studyNotes'',
                   JArr [JObj [(''title'', JStr ''S''), (''points'', JArr [JStr ''p''])],
                         JObj [(''title'', JStr ''T''), (''points'', JArr [])]]),
                (''videoType'', JStr ''General''), (''timestamps'', JArr []),
                (''speakers'', JArr []), (''subTopics'', JArr []),
                (''reviewDetails'', JUndefined)])"
proof -
  let ?x = "JObj [(''title'', JStr ''X''), (''themes'', JArr [JStr ''a'', JStr ''b'']),
                 (''quotes'', JNull),
                 (''studyNotes'',
                    JArr [JObj [(''title'', JStr ''S''), (''points'', JArr [JStr ''p''])],
                          JObj [(''title'', JStr ''T''), (''points'', JStr ''q'')]])]"
  have e: "sanitizeData ?x =
     Inr (JObj [(''title'', JStr ''X''), (''themes'', JArr [JStr ''a'', JStr ''b'']),
                (''quotes'', JArr []),
                (''studyNotes'',
                   JArr [JObj [(''title'', JStr ''S''), (''points'', JArr [JStr ''p''])],
                         JObj [(''title'', JStr ''T''), (''points'', JArr [])]]),
                (''videoType'', JStr ''General''), (''timestamps'', JArr []),
                (''speakers'', JArr []), (''subTopics'', JArr []),
                (''reviewDetails'', JUndefined)])"
    by code_simp
  show ?thesis
    using e sanitizeData_sequences[of JNull] sanitizeData_sequences[of ?x]
    by simp
qed

subsection \<open>Idempotence\<close>

text \<open>
  Sanitizing \<^verbatim>\<open>null\<close> gives \<^verbatim>\<open>{}\<close>, and sanitizing \<^verbatim>\<open>{}\<close> gives the fully
  defaulted record, which is not \<^verbatim>\<open>{}\<close>.
\<close>

theorem sanitizeData_not_idempotent_counterexample:
  "thenE (sanitizeData JNull) sanitizeData \<noteq> sanitizeData JNull"
  by (simp add: sanitizeData_def sanitizedFields_def)

text \<open>
  C7 (as amended). For every truthy input \<open>x\<close>, \<^verbatim>\<open>sanitizeData(sanitizeData(x))\<close>
  is \<^verbatim>\<open>sanitizeData(x)\<close>: the same record, property for property and in the same
  order, or the same exception.
\<close>

theorem sanitizeData_idempotent:
  "truthy x \<Longrightarrow> thenE (sanitizeData x) sanitizeData = sanitizeData x"
  by (cases "sanitizeData x") (simp_all add: sanitizeData_fix)

theorem sanitizeData_idempotent_witness:
  "truthy (JObj [(''title'', JStr ''X''), (''reviewDetails'', JObj [(''pros'', JNum 1)])]) \<and>
   thenE (sanitizeData (JObj [(''title'', JStr ''X''),
                              (''reviewDetails'', JObj [(''pros'', JNum 1)])])) sanitizeData =
     sanitizeData (JObj [(''title'', JStr ''X''), (''reviewDetails'', JObj [(''pros'', JNum 1)])])"
  using sanitizeData_idempotent[of "JObj [(''title'', JStr ''X''),
                                          (''reviewDetails'', JObj [(''pros'', JNum 1)])]"]
  by simp

subsection \<open>Review details\<close>

text \<open>
  The test of \<^verbatim>\<open>sanitizeData\<close> is \<^verbatim>\<open>data.reviewDetails ? ... : undefined\<close>:
  whatever is truthy counts as a review. For an input whose \<^verbatim>\<open>reviewDetails\<close> is
  the string "r", which is no review object, the output carries a review made of the
  defaults.
\<close>

theorem sanitizeData_reviewDetails_counterexample:
  "sanitizeData (JObj [(''reviewDetails'', JStr ''r'')]) =
     Inr (JObj [(''reviewDetails'',
                   JObj [(''item'', JStr ''Unknown''), (''rating'', JUndefined), (''pros'', JArr []),
                         (''cons'', JArr []), (''verdict'', JStr ''No verdict.'')]),
                (''videoType'', JStr ''General''), (''timestamps'', JArr []), (''themes'', JArr []),
                (''studyNotes'', JArr []), (''quotes'', JArr []), (''speakers'', JArr []),
                (''subTopics'', JArr [])]) \<and>
   getProp (JObj [(''reviewDetails'',
                   JObj [(''item'', JStr ''Unknown''), (''rating'', JUndefined), (''pros'', JArr []),
                         (''cons'', JArr []), (''verdict'', JStr ''No verdict.'')]),
                (''videoType'', JStr ''General''), (''timestamps'', JArr []), (''themes'', JArr []),
                (''studyNotes'', JArr []), (''quotes'', JArr []), (''speakers'', JArr []),
                (''subTopics'', JArr [])]) ''reviewDetails'' \<noteq> JUndefined"
  by (simp add: sanitizeData_def sanitizedFields_def sanitizeReview_def or_else_def)

text \<open>
  C9 (as amended). Whenever \<^verbatim>\<open>sanitizeData\<close> returns a record (it does unless a study
  section is undefined or null, see \<open>sanitizeData_returns\<close> and
  \<open>sanitizeData_throws\<close>): if the input's \<^verbatim>\<open>reviewDetails\<close> is truthy (an object,
  but also an array, a non-empty string, a number other than 0, or true), the record's
  reviewDetails is a new object of five properties, each defaulted on its own: item and
  verdict are the input's when truthy and else the placeholders "Unknown" and
  "No verdict.", pros and cons are the input's when they are arrays and else the empty
  array, rating is passed through. If the input's \<^verbatim>\<open>reviewDetails\<close> is falsy
  (absent, undefined, null, false, 0 or the empty string), reviewDetails is undefined,
  not an empty object.
\<close>

theorem sanitizeData_reviewDetails:
  "sanitizeData x = Inr r \<Longrightarrow>
   getProp r ''reviewDetails'' =
     (if truthy (getProp x ''reviewDetails'') then
        JObj [(''item'',
                 if truthy (getProp (getProp x ''reviewDetails'') ''item'')
                 then getProp (getProp x ''reviewDetails'') ''item'' else JStr ''Unknown''),
              (''rating'', getProp (getProp x ''reviewDetails'') ''rating''),
              (''pros'',
                 case getProp (getProp x ''reviewDetails'') ''pros'' of
                   JArr ps \<Rightarrow> JArr ps
                 | _ \<Rightarrow> JArr []),
              (''cons'',
                 case getProp (getProp x ''reviewDetails'') ''cons'' of
                   JArr cs \<Rightarrow> JArr cs
                 | _ \<Rightarrow> JArr []),
              (''verdict'',
                 if truthy (getProp (getProp x ''reviewDetails'') ''verdict'')
                 then getProp (getProp x ''reviewDetails'') ''verdict'' else JStr ''No verdict.'')]
      else JUndefined)"
proof (cases "truthy x")
  case False
  assume "sanitizeData x = Inr r"
  with False have "r = JObj []" by (simp add: sanitizeData_falsy)
  moreover from False have "getProp x ''reviewDetails'' = JUndefined" by (cases x) simp_all
  ultimately show ?thesis by simp
next
  case True
  assume "sanitizeData x = Inr r"
  with True obtain secs where "r = JObj (assignProps (sanitizedFields x secs) (spread x))"
    by (rule sanitizeData_Inr)
  then have "getProp r ''reviewDetails'' = sanitizeReview (getProp x ''reviewDetails'')"
    by (simp add: getProp_sanitized del: getProp.simps)
  then show ?thesis by (simp add: sanitizeReview_def ensureArray_cases or_else_def)
qed

theorem sanitizeData_reviewDetails_witness:
  "sanitizeData (JObj [(''reviewDetails'',
                          JObj [(''item'', JStr ''Phone''), (''pros'', JArr [JStr ''fast'']),
                                (''cons'', JStr ''heavy''), (''rating'', JNum 4)])])
     = Inr (JObj [(''reviewDetails'',
                     JObj [(''item'', JStr ''Phone''), (''rating'', JNum 4),
                           (''pros'', JArr [JStr ''fast'']), (''cons'', JArr []),
                           (''verdict'', JStr ''No verdict.'')]),
                  (''videoType'', JStr ''General''), (''timestamps'', JArr []), (''themes'', JArr []),
                  (''studyNotes'', JArr []), (''quotes'', JArr []), (''speakers'', JArr []),
                  (''subTopics'', JArr [])]) \<and>
   getProp (JObj [(''reviewDetails'',
                     JObj [(''item'', JStr ''Phone''), (''rating'', JNum 4),
                           (''pros'', JArr [JStr ''fast'']), (''cons'', JArr []),
                           (''verdict'', JStr ''No verdict.'')]),
                  (''videoType'', JStr ''General''), (''timestamps'', JArr []), (''themes'', JArr []),
                  (''studyNotes'', JArr []), (''quotes'', JArr []), (''speakers'', JArr []),
                  (''subTopics'', JArr [])]) ''reviewDetails''
     = JObj [(''item'', JStr ''Phone''), (''rating'', JNum 4), (''pros'', JArr [JStr ''fast'']),
             (''cons'', JArr []), (''verdict'', JStr ''No verdict.'')] \<and>
   sanitizeData (JObj [(''title'', JStr ''X'')])
     = Inr (JObj [(''title'', JStr ''X''), (''videoType'', JStr ''General''), (''timestamps'', JArr []),
                  (''themes'', JArr []), (''studyNotes'', JArr []), (''quotes'', JArr []),
                  (''speakers'', JArr []), (''subTopics'', JArr []), (''reviewDetails'', JUndefined)]) \<and>
   getProp (JObj [(''title'', JStr ''X''), (''videoType'', JStr ''General''), (''timestamps'', JArr []),
                  (''themes'', JArr []), (''studyNotes'', JArr []), (''quotes'', JArr []),
                  (''speakers'', JArr []), (''subTopics'', JArr []), (''reviewDetails'', JUndefined)])
     ''reviewDetails'' = JUndefined"
proof -
  have a: "sanitizeData (JObj [(''reviewDetails'',
                          JObj [(''item'', JStr ''Phone''), (''pros'', JArr [JStr ''fast'']),
                                (''cons'', JStr ''heavy''), (''rating'', JNum 4)])])
     = Inr (JObj [(''reviewDetails'',
                     JObj [(''item'', JStr ''Phone''), (''rating'', JNum 4),
                           (''pros'', JArr [JStr ''fast'']), (''cons'', JArr []),
                           (''verdict'', JStr ''No verdict.'')]),
                  (''videoType'', JStr ''General''), (''timestamps'', JArr []), (''themes'', JArr []),
                  (''studyNotes'', JArr []), (''quotes'', JArr []), (''speakers'', JArr []),
                  (''subTopics'', JArr [])])"
    by (simp add: sanitizeData_def sanitizedFields_def sanitizeReview_def or_else_def)
  have b: "sanitizeData (JObj [(''title'', JStr ''X'')])
     = Inr (JObj [(''title'', JStr ''X''), (''videoType'', JStr ''General''), (''timestamps'', JArr []),
                  (''themes'', JArr []), (''studyNotes'', JArr []), (''quotes'', JArr []),
                  (''speakers'', JArr []), (''subTopics'', JArr []), (''reviewDetails'', JUndefined)])"
    by (simp add: sanitizeData_def sanitizedFields_def sanitizeReview_def or_else_def)
  show ?thesis
    using a b sanitizeData_reviewDetails[OF a] sanitizeData_reviewDetails[OF b]
    by simp
qed

subsection \<open>Frame\<close>

text \<open>
  C10. For every object given to \<^verbatim>\<open>sanitizeData\<close>, a property that is not one of the
  eight assigned keys (title, summary, transcript, videoId, sentiment and any other key)
  is in the returned record exactly as it is in the input: present with the same value,
  or absent. The record is returned unless a study section is undefined or null
  (\<open>sanitizeData_returns\<close>, \<open>sanitizeData_throws\<close>).
\<close>

theorem sanitizeData_frame:
  assumes "sanitizeData (JObj kvs) = Inr r" and "k \<notin> set sanitizedKeys"
  shows "\<exists>kvs'. r = JObj kvs' \<and> map_of kvs' k = map_of kvs k"
proof -
  from assms(1) obtain secs where "r = JObj (assignProps (sanitizedFields (JObj kvs) secs) kvs)"
    by (auto elim: sanitizeData_Inr[rotated])
  moreover from assms(2) have "map_of (rev (sanitizedFields (JObj kvs) secs)) k = None"
    unfolding sanitizedFields_lookup by (simp add: sanitizedKeys_def)
  ultimately show ?thesis
    by (simp add: map_of_assignProps)
qed

theorem sanitizeData_frame_witness:
  "sanitizeData (JObj [(''videoId'', JStr ''dQw4w9WgXcQ''), (''videoType'', JStr [])])
     = Inr (JObj [(''videoId'', JStr ''dQw4w9WgXcQ''), (''videoType'', JStr ''General''),
                  (''timestamps'', JArr []), (''themes'', JArr []), (''studyNotes'', JArr []),
                  (''quotes'', JArr []), (''speakers'', JArr []), (''subTopics'', JArr []),
                  (''reviewDetails'', JUndefined)]) \<and>
   ''videoId'' \<notin> set sanitizedKeys \<and>
   (\<exists>kvs'. JObj [(''videoId'', JStr ''dQw4w9WgXcQ''), (''videoType'', JStr ''General''),
                  (''timestamps'', JArr []), (''themes'', JArr []), (''studyNotes'', JArr []),
                  (''quotes'', JArr []), (''speakers'', JArr []), (''subTopics'', JArr []),
                  (''reviewDetails'', JUndefined)] = JObj kvs' \<and>
           map_of kvs' ''videoId'' = Some (JStr ''dQw4w9WgXcQ''))"
proof -
  have a: "sanitizeData (JObj [(''videoId'', JStr ''dQw4w9WgXcQ''), (''videoType'', JStr [])])
     = Inr (JObj [(''videoId'', JStr ''dQw4w9WgXcQ''), (''videoType'', JStr ''General''),
                  (''timestamps'', JArr []), (''themes'', JArr []), (''studyNotes'', JArr []),
                  (''quotes'', JArr []), (''speakers'', JArr []), (''subTopics'', JArr []),
                  (''reviewDetails'', JUndefined)])"
    by (simp add: sanitizeData_def sanitizedFields_def sanitizeReview_def or_else_def)
  have b: "''videoId'' \<notin> set sanitizedKeys"
    by (simp add: sanitizedKeys_def)
  show ?thesis
    using a b sanitizeData_frame[OF a b] by simp
qed

end
